theory Spec2Isabelle
  imports Main "HOL-Library.Sublist"
begin

section \<open>Dialpad user management: the batch action processor\<close>

text \<open>
  A shallow embedding of \<^verbatim>\<open>dialpad.py\<close>: the three action functions
  \<^verbatim>\<open>create\<close>, \<^verbatim>\<open>update\<close> and \<^verbatim>\<open>delete\<close>, the helpers
  \<^verbatim>\<open>findUser\<close>, \<^verbatim>\<open>findOfficeKey\<close> and \<^verbatim>\<open>sendMail\<close>, and the loop of
  \<^verbatim>\<open>main\<close> over the records of the input file.

  Scope of the model. The program is Python 2: \<^verbatim>\<open>json.load\<close> gives every string
  of the input as a \<^verbatim>\<open>unicode\<close> object, and \<^verbatim>\<open>str()\<close> of such an object raises
  when a character is not ASCII; this is part of the model. The \<^verbatim>\<open>print\<close> and
  \<^verbatim>\<open>logging\<close> calls produce no value the program reads back and are left out, except
  where building their message can raise. Opening and closing the files, parsing the
  arguments and reading the settings module happen outside the loop and are not modelled;
  the entries of \<^verbatim>\<open>reader["useractions"]\<close> are taken to be JSON objects.
\<close>

subsection \<open>Settings\<close>

text \<open>The globals that \<^verbatim>\<open>readConfig\<close> copies from \<^verbatim>\<open>dialpad_settings.py\<close>.\<close>

record config =
  CLIENT_KEY :: string
  DOMAIN :: string
  FROM :: string
  TO :: string
  MAILSERVER :: string
  DEPTDICTIONARY :: "string \<rightharpoonup> string"

subsection \<open>The outside world\<close>

text \<open>
  Every exchange with the Dialpad API is one \<^verbatim>\<open>try\<close> block: it opens a connection,
  sends a GET request for a path, reads the response and closes the connection. Its
  outcome is either an exception raised somewhere in that block, or a response with a
  status and a body.
\<close>

datatype http_outcome = Raised | Response int string

text \<open>
  The requests the program has attempted, tagged by the function that attempted them;
  the argument is the path of the GET request.
\<close>

datatype api_call = FindUser string | AddUser string | UpdateUser string | DeleteUser string

text \<open>
  The arguments of one call of \<^verbatim>\<open>sendMail\<close>. The message handed to the mail server
  is laid out from these four with \<^verbatim>\<open>textwrap.dedent\<close>; its layout is not modelled.
\<close>

record mail =
  mail_from :: string
  mail_to :: string
  mail_subject :: string
  mail_text :: string

text \<open>
  The world records, oldest first, the API requests attempted and the notifications
  attempted, each notification with the flag whether the mail server took it without an
  exception.
\<close>

record world =
  requests :: "api_call list"
  mails :: "(mail \<times> bool) list"

text \<open>
  What the program cannot decide is a parameter: the answer of the API to a request
  (which may depend on everything that happened before), whether the mail server accepts
  a message, and the order in which Python 2 iterates over a dictionary. A Python 2
  dictionary is a hash table, iterated slot by slot; the slot of each key is the
  parameter.
\<close>

record env =
  http_reply :: "world \<Rightarrow> string \<Rightarrow> http_outcome"
  smtp_ok :: "world \<Rightarrow> string \<Rightarrow> mail \<Rightarrow> bool"
  slot :: "string \<Rightarrow> nat"

subsection \<open>Helpers\<close>

text \<open>Python's \<^verbatim>\<open>x in data\<close> on strings: \<^verbatim>\<open>x\<close> occurs in \<^verbatim>\<open>data\<close> as a contiguous piece.\<close>

fun is_substring :: "string \<Rightarrow> string \<Rightarrow> bool" where
  "is_substring x [] = (x = [])"
| "is_substring x (c # cs) = (prefix x (c # cs) \<or> is_substring x cs)"

text \<open>The items of a dictionary in the order of \<^verbatim>\<open>for _item in params\<close>.\<close>

definition dict_iter :: "env \<Rightarrow> (string \<times> string) list \<Rightarrow> (string \<times> string) list" where
  "dict_iter e items = sort_key (\<lambda>item. slot e (fst item)) items"

text \<open>The part of the request path that all four requests share.\<close>

definition user_path :: "config \<Rightarrow> string \<Rightarrow> string" where
  "user_path cfg upn = ''/api/v1/admin/user?api_key='' @ CLIENT_KEY cfg @ ''&email='' @ upn"

text \<open>The user principal name: \<^verbatim>\<open>upn = username + "@" + DOMAIN\<close>.\<close>

definition principal_name :: "config \<Rightarrow> string \<Rightarrow> string" where
  "principal_name cfg username = username @ ''@'' @ DOMAIN cfg"

definition log_request :: "api_call \<Rightarrow> world \<Rightarrow> world" where
  "log_request c w = w\<lparr>requests := requests w @ [c]\<rparr>"

text \<open>
  \<^verbatim>\<open>findUser\<close> returns \<^verbatim>\<open>False\<close> in one place only: the status is 200 and the
  principal name is not in the body. Every other path, the exception handler included,
  falls through to \<^verbatim>\<open>return True\<close>.
\<close>

definition findUser :: "config \<Rightarrow> env \<Rightarrow> string \<Rightarrow> world \<Rightarrow> bool \<times> world" where
  "findUser cfg e upn w =
     (let path = user_path cfg upn;
          w' = log_request (FindUser path) w
      in case http_reply e w path of
           Raised \<Rightarrow> (True, w')
         | Response status data \<Rightarrow>
             if status = 200 then
               (if \<not> is_substring upn data then (False, w') else (True, w'))
             else (True, w'))"

definition findOfficeKey :: "config \<Rightarrow> string \<Rightarrow> string option" where
  "findOfficeKey cfg ou = DEPTDICTIONARY cfg ou"

definition sendMail :: "config \<Rightarrow> env \<Rightarrow> string \<Rightarrow> string \<Rightarrow> string \<Rightarrow> string \<Rightarrow> world \<Rightarrow> world" where
  "sendMail cfg e frm to subject text w =
     (let m = \<lparr>mail_from = frm, mail_to = to, mail_subject = subject, mail_text = text\<rparr>
      in w\<lparr>mails := mails w @ [(m, smtp_ok e w (MAILSERVER cfg) m)]\<rparr>)"

text \<open>
  The loop \<^verbatim>\<open>for _item in params: if str(params[_item]) == "": ... return\<close>: the first
  item, in iteration order, whose value is the empty string.
\<close>

fun first_empty :: "(string \<times> string) list \<Rightarrow> string option" where
  "first_empty [] = None"
| "first_empty ((item, v) # ps) = (if v = '''' then Some item else first_empty ps)"

definition missing_value :: "string \<Rightarrow> string" where
  "missing_value item = ''ERROR: Missing an expected input value for '' @ item @ '' in input file.''"

subsection \<open>The three actions\<close>

definition create_locals :: "string \<Rightarrow> string \<Rightarrow> string \<Rightarrow> string \<Rightarrow> (string \<times> string) list" where
  "create_locals username givenName sn ou =
     [(''username'', username), (''givenName'', givenName), (''sn'', sn), (''ou'', ou)]"

definition create ::
  "config \<Rightarrow> env \<Rightarrow> string \<Rightarrow> string \<Rightarrow> string \<Rightarrow> string \<Rightarrow> world \<Rightarrow> string \<times> world" where
  "create cfg e username givenName sn ou w =
     (case first_empty (dict_iter e (create_locals username givenName sn ou)) of
        Some item \<Rightarrow> (missing_value item, w)
      | None \<Rightarrow>
          (let upn = principal_name cfg username;
               (found, w1) = findUser cfg e upn w
           in if found then (''ERROR: username already exists in Dialpad!'', w1)
              else
                (let office = (case findOfficeKey cfg ou of
                                 None \<Rightarrow> ''''
                               | Some office_key \<Rightarrow>
                                   if office_key \<noteq> '''' then ''&office_key='' @ office_key
                                   else '''');
                     path = user_path cfg upn @ ''&action=add&first_name='' @ givenName
                              @ ''&last_name='' @ sn @ office;
                     w2 = log_request (AddUser path) w1
                 in case http_reply e w1 path of
                      Raised \<Rightarrow> (''ERROR: could not create Dialpad user.'', w2)
                    | Response status data \<Rightarrow>
                        if status \<noteq> 200 then (''ERROR: could not create Dialpad user.'', w2)
                        else (''SUCCESS: user was created in Dialpad.'', w2))))"

definition update_locals :: "string \<Rightarrow> string \<Rightarrow> string \<Rightarrow> (string \<times> string) list" where
  "update_locals username newusername loginDisabled =
     [(''username'', username), (''newusername'', newusername),
      (''loginDisabled'', loginDisabled)]"

definition update ::
  "config \<Rightarrow> env \<Rightarrow> string \<Rightarrow> string \<Rightarrow> string \<Rightarrow> world \<Rightarrow> string \<times> world" where
  "update cfg e username newusername loginDisabled w =
     (case first_empty (dict_iter e (update_locals username newusername loginDisabled)) of
        Some item \<Rightarrow> (missing_value item, w)
      | None \<Rightarrow>
          (let upn = principal_name cfg username;
               (found, w1) = findUser cfg e upn w
           in if \<not> found then (''ERROR: user could not be found in Dialpad!'', w1)
              else if username \<noteq> newusername then
                (let subject = ''Rename Dialpad user: '' @ username @ '' to '' @ newusername;
                     text = ''Please rename Dialpad user account manually.''
                 in (''ERROR: renaming users in Dialpad is not supported - emailed Dialpad admin!'',
                     sendMail cfg e (FROM cfg) (TO cfg) subject text w1))
              else
                (let action = (if loginDisabled = ''True'' then ''suspend'' else ''reactivate'');
                     path = user_path cfg upn @ ''&action='' @ action;
                     w2 = log_request (UpdateUser path) w1
                 in case http_reply e w1 path of
                      Raised \<Rightarrow> (''ERROR: Could not update Dialpad user.'', w2)
                    | Response status data \<Rightarrow>
                        if status \<noteq> 200 then (''ERROR: could not update Dialpad user.'', w2)
                        else (''SUCCESS: user was updated in Dialpad.'', w2))))"

definition delete :: "config \<Rightarrow> env \<Rightarrow> string \<Rightarrow> world \<Rightarrow> string \<times> world" where
  "delete cfg e username w =
     (if username = '''' then
        (''ERROR: Missing an expected input value for username in input file.'', w)
      else
        (let upn = principal_name cfg username;
             (found, w1) = findUser cfg e upn w
         in if \<not> found then (''ERROR: user could not be found in Dialpad!'', w1)
            else
              (let path = user_path cfg upn @ ''&action=delete'';
                   w2 = log_request (DeleteUser path) w1
               in case http_reply e w1 path of
                    Raised \<Rightarrow> (''ERROR: Could not delete Dialpad user.'', w2)
                  | Response status data \<Rightarrow>
                      if status \<noteq> 200 then (''ERROR: could not delete user in Dialpad.'', w2)
                      else (''SUCCESS: user deleted in Dialpad.'', w2))))"

subsection \<open>The loop of main\<close>

text \<open>
  The values of a record as \<^verbatim>\<open>json.load\<close> returns them: \<^verbatim>\<open>None\<close>, a Boolean, an
  integer, or a \<^verbatim>\<open>unicode\<close> string, given here by the bytes of its UTF-8 form, so that
  the string is ASCII exactly when every byte is below 128. Every other value (a float, a
  list, a nested object) is given by the two texts the program can get from it: what
  \<^verbatim>\<open>str()\<close> returns and what the csv writer writes (they differ for a float).
\<close>

datatype json = JNull | JBool bool | JInt int | JString string | JOther string string

datatype py_error = KeyError string | UnicodeEncodeError

text \<open>A byte below 128: its top bit is clear.\<close>

definition is_ascii :: "string \<Rightarrow> bool" where
  "is_ascii s = list_all (\<lambda>c. \<not> digit7 c) s"

text \<open>Python's \<^verbatim>\<open>str()\<close> of an integer: decimal digits, with a minus sign if negative.\<close>

fun decimal :: "nat \<Rightarrow> string" where
  "decimal n =
     (if n < 10 then [''0123456789'' ! n]
      else decimal (n div 10) @ [''0123456789'' ! (n mod 10)])"

declare decimal.simps [simp del]

definition int_text :: "int \<Rightarrow> string" where
  "int_text i = (if i < 0 then ''-'' @ decimal (nat (- i)) else decimal (nat i))"

text \<open>
  \<^verbatim>\<open>str(v)\<close>: a \<^verbatim>\<open>unicode\<close> string is encoded with the ASCII codec, which raises
  \<^verbatim>\<open>UnicodeEncodeError\<close> on any other character. A \<^verbatim>\<open>{0}\<close> field of
  \<^verbatim>\<open>str.format\<close> converts its argument in the same way.
\<close>

definition py_str :: "json \<Rightarrow> py_error + string" where
  "py_str v =
     (case v of
        JNull \<Rightarrow> Inr ''None''
      | JBool b \<Rightarrow> Inr (if b then ''True'' else ''False'')
      | JInt i \<Rightarrow> Inr (int_text i)
      | JString s \<Rightarrow> if is_ascii s then Inr s else Inl UnicodeEncodeError
      | JOther shown written \<Rightarrow> Inr shown)"

text \<open>
  The text that \<^verbatim>\<open>csv.writer\<close> of Python 2 writes for one field: \<^verbatim>\<open>None\<close> is the
  empty field, a \<^verbatim>\<open>unicode\<close> string goes through the ASCII codec, a float through
  \<^verbatim>\<open>repr()\<close>, everything else through \<^verbatim>\<open>str()\<close>.
\<close>

definition csv_text :: "json \<Rightarrow> py_error + string" where
  "csv_text v =
     (case v of
        JNull \<Rightarrow> Inr ''''
      | JBool b \<Rightarrow> Inr (if b then ''True'' else ''False'')
      | JInt i \<Rightarrow> Inr (int_text i)
      | JString s \<Rightarrow> if is_ascii s then Inr s else Inl UnicodeEncodeError
      | JOther shown written \<Rightarrow> Inr written)"

text \<open>
  One record of \<^verbatim>\<open>reader["useractions"]\<close> is a dictionary; \<^verbatim>\<open>row[k]\<close> raises
  \<^verbatim>\<open>KeyError\<close> when the key is absent, and \<^verbatim>\<open>str(row[k])\<close> raises that or what
  \<^verbatim>\<open>str()\<close> raises.
\<close>

type_synonym row = "string \<rightharpoonup> json"

definition getitem :: "row \<Rightarrow> string \<Rightarrow> py_error + json" where
  "getitem r k = (case r k of None \<Rightarrow> Inl (KeyError k) | Some v \<Rightarrow> Inr v)"

definition str_item :: "row \<Rightarrow> string \<Rightarrow> py_error + string" where
  "str_item r k = (case getitem r k of Inl err \<Rightarrow> Inl err | Inr v \<Rightarrow> py_str v)"

text \<open>A line of the output file: action, username, result.\<close>

type_synonym csv_row = "string \<times> string \<times> string"

text \<open>
  \<^verbatim>\<open>writer.writerow([row["action"], row["username"], result])\<close>: the list is built
  first, then the writer converts its fields from left to right.
\<close>

definition writerow :: "row \<Rightarrow> string \<Rightarrow> py_error + csv_row" where
  "writerow r result =
     (case getitem r ''action'' of Inl err \<Rightarrow> Inl err | Inr action \<Rightarrow>
     (case getitem r ''username'' of Inl err \<Rightarrow> Inl err | Inr username \<Rightarrow>
     (case csv_text action of Inl err \<Rightarrow> Inl err | Inr action_text \<Rightarrow>
     (case csv_text username of Inl err \<Rightarrow> Inl err | Inr username_text \<Rightarrow>
        Inr (action_text, username_text, result)))))"

text \<open>
  The body of the \<^verbatim>\<open>for\<close> loop: what it writes, or the exception it raises, and the
  world afterwards. Python evaluates the arguments of a call from left to right before
  the call, so a missing key or a string that \<^verbatim>\<open>str()\<close> rejects raises before the
  action function runs. A \<^verbatim>\<open>unicode\<close> string equals the byte string \<^verbatim>\<open>'create'\<close>
  when it has the same characters; no other value equals it. In the last branch the
  message of \<^verbatim>\<open>print\<close> and \<^verbatim>\<open>logging.error\<close> is built from \<^verbatim>\<open>row["action"]\<close>
  before the line is written.
\<close>

definition process_row :: "config \<Rightarrow> env \<Rightarrow> row \<Rightarrow> world \<Rightarrow> (py_error + csv_row) \<times> world" where
  "process_row cfg e r w =
     (case getitem r ''action'' of
        Inl err \<Rightarrow> (Inl err, w)
      | Inr action \<Rightarrow>
          if action = JString ''create'' then
            (case str_item r ''username'' of Inl err \<Rightarrow> (Inl err, w) | Inr username \<Rightarrow>
            (case str_item r ''givenName'' of Inl err \<Rightarrow> (Inl err, w) | Inr givenName \<Rightarrow>
            (case str_item r ''sn'' of Inl err \<Rightarrow> (Inl err, w) | Inr sn \<Rightarrow>
            (case str_item r ''primO'' of Inl err \<Rightarrow> (Inl err, w) | Inr primO \<Rightarrow>
               (let (result, w') = create cfg e username givenName sn primO w
                in (writerow r result, w'))))))
          else if action = JString ''update'' then
            (case str_item r ''username'' of Inl err \<Rightarrow> (Inl err, w) | Inr username \<Rightarrow>
            (case str_item r ''newusername'' of Inl err \<Rightarrow> (Inl err, w) | Inr newusername \<Rightarrow>
            (case str_item r ''loginDisabled'' of Inl err \<Rightarrow> (Inl err, w) | Inr loginDisabled \<Rightarrow>
               (let (result, w') = update cfg e username newusername loginDisabled w
                in (writerow r result, w')))))
          else if action = JString ''delete'' then
            (case str_item r ''username'' of Inl err \<Rightarrow> (Inl err, w) | Inr username \<Rightarrow>
               (let (result, w') = delete cfg e username w
                in (writerow r result, w')))
          else
            (case py_str action of Inl err \<Rightarrow> (Inl err, w) | Inr message \<Rightarrow>
               (writerow r ''ERROR: Unrecognized action.'', w)))"

text \<open>
  The loop itself, inside the \<^verbatim>\<open>try\<close> of \<^verbatim>\<open>main\<close>: an exception leaves the loop
  for the handler \<^verbatim>\<open>except Exception\<close>, which reports it and writes nothing more. The
  result is the lines written after the header line, the world, and the exception that
  ended the loop, if any.
\<close>

fun run_rows ::
  "config \<Rightarrow> env \<Rightarrow> row list \<Rightarrow> csv_row list \<Rightarrow> world \<Rightarrow> csv_row list \<times> world \<times> py_error option" where
  "run_rows cfg e [] out w = (out, w, None)"
| "run_rows cfg e (r # rs) out w =
     (case process_row cfg e r w of
        (Inl err, w') \<Rightarrow> (out, w', Some err)
      | (Inr line, w') \<Rightarrow> run_rows cfg e rs (out @ [line]) w')"

definition report :: "config \<Rightarrow> env \<Rightarrow> row list \<Rightarrow> world \<Rightarrow> csv_row list" where
  "report cfg e batch w = fst (run_rows cfg e batch [] w)"

subsection \<open>Vocabulary of the properties\<close>

text \<open>
  A lookup that fails entirely: the exchange raised, or the response has a status other
  than 200.
\<close>

definition lookup_failed :: "http_outcome \<Rightarrow> bool" where
  "lookup_failed reply = (case reply of Raised \<Rightarrow> True | Response status data \<Rightarrow> status \<noteq> 200)"

text \<open>A value that the ASCII codec accepts: anything but a string with a non-ASCII character.\<close>

definition encodable :: "json \<Rightarrow> bool" where
  "encodable v = (case v of JString s \<Rightarrow> is_ascii s | _ \<Rightarrow> True)"

text \<open>
  The keys that the loop body reads from a record besides \<^verbatim>\<open>action\<close>, by the value of
  \<^verbatim>\<open>action\<close>: the arguments of the action function, and \<^verbatim>\<open>username\<close> for the
  output line.
\<close>

definition read_keys :: "json \<Rightarrow> string list" where
  "read_keys action =
     (if action = JString ''create'' then [''username'', ''givenName'', ''sn'', ''primO'']
      else if action = JString ''update'' then [''username'', ''newusername'', ''loginDisabled'']
      else [''username''])"

text \<open>
  A record the loop body can read: it has the key \<^verbatim>\<open>action\<close> and the keys read for
  that action, and the values of all these are encodable.
\<close>

definition readable :: "row \<Rightarrow> bool" where
  "readable r =
     (case r ''action'' of
        None \<Rightarrow> False
      | Some action \<Rightarrow>
          encodable action
          \<and> list_all (\<lambda>k. case r k of None \<Rightarrow> False | Some v \<Rightarrow> encodable v)
                (read_keys action))"

text \<open>The first two fields of the line written for a record, when there are any.\<close>

definition label :: "row \<Rightarrow> (string \<times> string) option" where
  "label r =
     (case r ''action'' of None \<Rightarrow> None | Some action \<Rightarrow>
     (case r ''username'' of None \<Rightarrow> None | Some username \<Rightarrow>
     (case csv_text action of Inl err \<Rightarrow> None | Inr action_text \<Rightarrow>
     (case csv_text username of Inl err \<Rightarrow> None | Inr username_text \<Rightarrow>
        Some (action_text, username_text)))))"

text \<open>The request that carries out an action, for a given path; none for an unknown action.\<close>

definition own_request :: "json \<Rightarrow> string \<Rightarrow> api_call option" where
  "own_request action path =
     (if action = JString ''create'' then Some (AddUser path)
      else if action = JString ''update'' then Some (UpdateUser path)
      else if action = JString ''delete'' then Some (DeleteUser path)
      else None)"

definition is_error :: "string \<Rightarrow> bool" where
  "is_error result = prefix ''ERROR: '' result"

definition is_success :: "string \<Rightarrow> bool" where
  "is_success result = prefix ''SUCCESS: '' result"

subsection \<open>A concrete installation\<close>

text \<open>
  The settings file as shipped, with its empty strings filled in, a remote service that
  answers the n-th request of a run with the n-th reply of a script (and raises when the
  script is over), and dictionaries that iterate shorter keys first.
\<close>

definition settings0 :: config where
  "settings0 =
     \<lparr>CLIENT_KEY = ''secret'', DOMAIN = ''denison.edu'', FROM = ''dialpad@denison.edu'',
      TO = ''admin@denison.edu'', MAILSERVER = ''mail.denison.edu'',
      DEPTDICTIONARY =
        map_of [(''Admissions'', ''gdfsgds546456bdcbbc''), (''Biology'', ''''), (''History'', '''')]\<rparr>"

definition scripted :: "http_outcome list \<Rightarrow> bool \<Rightarrow> env" where
  "scripted replies delivered =
     \<lparr>http_reply = (\<lambda>w path. if length (requests w) < length replies
                              then replies ! length (requests w) else Raised),
      smtp_ok = (\<lambda>w server m. delivered),
      slot = length\<rparr>"

definition world0 :: world where
  "world0 = \<lparr>requests = [], mails = []\<rparr>"

text \<open>
  Records of an input file: the sample record of the program's documentation; the same
  record with an empty given name; with a given name that has a u-umlaut (in UTF-8 the two
  bytes C3 BC); without the key \<^verbatim>\<open>givenName\<close>; a delete record; a delete record whose
  username is \<^verbatim>\<open>null\<close>; an update record for a user to suspend; and an update record
  without the key \<^verbatim>\<open>loginDisabled\<close>.
\<close>

definition sample_create :: row where
  "sample_create =
     map_of [(''action'', JString ''create''), (''username'', JString ''testuserj''),
             (''newusername'', JString ''testuserj''), (''loginDisabled'', JString ''False''),
             (''givenName'', JString ''John''), (''sn'', JString ''Testuser''),
             (''primO'', JString ''Biology'')]"

definition sample_empty_givenName :: row where
  "sample_empty_givenName =
     map_of [(''action'', JString ''create''), (''username'', JString ''testuserj''),
             (''newusername'', JString ''testuserj''), (''loginDisabled'', JString ''False''),
             (''givenName'', JString ''''), (''sn'', JString ''Testuser''),
             (''primO'', JString ''Biology'')]"

definition sample_umlaut :: row where
  "sample_umlaut =
     map_of [(''action'', JString ''create''), (''username'', JString ''testuserj''),
             (''newusername'', JString ''testuserj''), (''loginDisabled'', JString ''False''),
             (''givenName'', JString (''J'' @ [CHR 0xC3, CHR 0xBC] @ ''rgen'')),
             (''sn'', JString ''Testuser''), (''primO'', JString ''Biology'')]"

definition sample_no_givenName :: row where
  "sample_no_givenName =
     map_of [(''action'', JString ''create''), (''username'', JString ''testuserj''),
             (''newusername'', JString ''testuserj''), (''loginDisabled'', JString ''False''),
             (''sn'', JString ''Testuser''), (''primO'', JString ''Biology'')]"

definition sample_delete :: row where
  "sample_delete = map_of [(''action'', JString ''delete''), (''username'', JString ''olduser'')]"

definition sample_delete_null :: row where
  "sample_delete_null = map_of [(''action'', JString ''delete''), (''username'', JNull)]"

definition sample_update :: row where
  "sample_update =
     map_of [(''action'', JString ''update''), (''username'', JString ''testuserj''),
             (''newusername'', JString ''testuserj''), (''loginDisabled'', JString ''True'')]"

definition sample_update_no_flag :: row where
  "sample_update_no_flag =
     map_of [(''action'', JString ''update''), (''username'', JString ''testuserj''),
             (''newusername'', JString ''testuserj'')]"

section \<open>Lemmas about the model\<close>

subsection \<open>Substrings and dictionary iteration\<close>

lemma is_substring_sublist: "is_substring x ys = sublist x ys"
  by (induction ys) (simp_all add: sublist_Cons_right)

lemma is_substring_iff: "is_substring x ys \<longleftrightarrow> (\<exists>pre post. ys = pre @ x @ post)"
  by (simp add: is_substring_sublist sublist_def)

lemma set_dict_iter: "set (dict_iter e items) = set items"
  by (simp add: dict_iter_def)

lemma first_empty_None: "\<forall>k. (k, '''') \<notin> set ps \<Longrightarrow> first_empty ps = None"
  by (induction ps) auto

lemma first_empty_Some: "first_empty ps = Some item \<Longrightarrow> (item, '''') \<in> set ps"
  by (induction ps) (auto split: if_splits)

lemma first_empty_found: "(k, '''') \<in> set ps \<Longrightarrow> \<exists>item. first_empty ps = Some item"
  by (induction ps) auto

lemma first_empty_dict_iter:
  assumes "(k, '''') \<in> set ps"
  shows "\<exists>item. first_empty (dict_iter e ps) = Some item \<and> (item, '''') \<in> set ps"
proof -
  from assms have "(k, '''') \<in> set (dict_iter e ps)"
    by (simp add: set_dict_iter)
  then obtain item where it: "first_empty (dict_iter e ps) = Some item"
    using first_empty_found by blast
  then have "(item, '''') \<in> set (dict_iter e ps)"
    by (rule first_empty_Some)
  then have "(item, '''') \<in> set ps"
    by (simp add: set_dict_iter)
  with it show ?thesis by blast
qed

lemma create_locals_checked:
  assumes "username \<noteq> ''''" "givenName \<noteq> ''''" "sn \<noteq> ''''" "ou \<noteq> ''''"
  shows "first_empty (dict_iter e (create_locals username givenName sn ou)) = None"
proof (rule first_empty_None)
  from assms show "\<forall>k. (k, '''') \<notin> set (dict_iter e (create_locals username givenName sn ou))"
    by (auto simp: set_dict_iter create_locals_def)
qed

lemma update_locals_checked:
  assumes "username \<noteq> ''''" "newusername \<noteq> ''''" "loginDisabled \<noteq> ''''"
  shows "first_empty (dict_iter e (update_locals username newusername loginDisabled)) = None"
proof (rule first_empty_None)
  from assms show "\<forall>k. (k, '''') \<notin> set (dict_iter e (update_locals username newusername loginDisabled))"
    by (auto simp: set_dict_iter update_locals_def)
qed

lemma create_locals_empty:
  assumes "username = '''' \<or> givenName = '''' \<or> sn = '''' \<or> ou = ''''"
  shows "\<exists>k. (k, '''') \<in> set (create_locals username givenName sn ou)"
proof -
  have "(''username'', username) \<in> set (create_locals username givenName sn ou)"
    and "(''givenName'', givenName) \<in> set (create_locals username givenName sn ou)"
    and "(''sn'', sn) \<in> set (create_locals username givenName sn ou)"
    and "(''ou'', ou) \<in> set (create_locals username givenName sn ou)"
    by (simp_all add: create_locals_def)
  with assms show ?thesis by metis
qed

lemma update_locals_empty:
  assumes "username = '''' \<or> newusername = '''' \<or> loginDisabled = ''''"
  shows "\<exists>k. (k, '''') \<in> set (update_locals username newusername loginDisabled)"
proof -
  have "(''username'', username) \<in> set (update_locals username newusername loginDisabled)"
    and "(''newusername'', newusername) \<in> set (update_locals username newusername loginDisabled)"
    and "(''loginDisabled'', loginDisabled) \<in> set (update_locals username newusername loginDisabled)"
    by (simp_all add: update_locals_def)
  with assms show ?thesis by metis
qed

lemma missing_value_is_error: "is_error (missing_value item)" "\<not> is_success (missing_value item)"
  by (simp_all add: is_error_def is_success_def missing_value_def)

subsection \<open>The existence check\<close>

lemma findUser_world: "snd (findUser cfg e upn w) = log_request (FindUser (user_path cfg upn)) w"
  by (simp add: findUser_def Let_def split: http_outcome.split)

lemma findUser_pair:
  "findUser cfg e upn w = (fst (findUser cfg e upn w), log_request (FindUser (user_path cfg upn)) w)"
  by (metis findUser_world prod.collapse)

lemma findUser_True:
  "fst (findUser cfg e upn w) \<Longrightarrow>
   findUser cfg e upn w = (True, log_request (FindUser (user_path cfg upn)) w)"
  using findUser_pair [of cfg e upn w] by simp

lemma findUser_False:
  "\<not> fst (findUser cfg e upn w) \<Longrightarrow>
   findUser cfg e upn w = (False, log_request (FindUser (user_path cfg upn)) w)"
  using findUser_pair [of cfg e upn w] by simp

lemma findUser_failed: "lookup_failed (http_reply e w (user_path cfg upn)) \<Longrightarrow> fst (findUser cfg e upn w)"
  by (simp add: findUser_def lookup_failed_def Let_def split: http_outcome.splits)

subsection \<open>The branches of the three actions\<close>

lemma create_found:
  assumes chk: "first_empty (dict_iter e (create_locals username givenName sn ou)) = None"
    and found: "fst (findUser cfg e (principal_name cfg username) w)"
  shows "create cfg e username givenName sn ou w =
           (''ERROR: username already exists in Dialpad!'',
            log_request (FindUser (user_path cfg (principal_name cfg username))) w)"
  by (simp add: create_def chk findUser_True [OF found] Let_def)

lemma create_not_found:
  assumes chk: "first_empty (dict_iter e (create_locals username givenName sn ou)) = None"
    and nfound: "\<not> fst (findUser cfg e (principal_name cfg username) w)"
  shows "create cfg e username givenName sn ou w =
           (let w1 = log_request (FindUser (user_path cfg (principal_name cfg username))) w;
                office = (case DEPTDICTIONARY cfg ou of
                            None \<Rightarrow> ''''
                          | Some office_key \<Rightarrow>
                              if office_key \<noteq> '''' then ''&office_key='' @ office_key else '''');
                path = user_path cfg (principal_name cfg username) @ ''&action=add&first_name=''
                         @ givenName @ ''&last_name='' @ sn @ office
            in (case http_reply e w1 path of
                  Raised \<Rightarrow> ''ERROR: could not create Dialpad user.''
                | Response status data \<Rightarrow>
                    if status \<noteq> 200 then ''ERROR: could not create Dialpad user.''
                    else ''SUCCESS: user was created in Dialpad.'',
                log_request (AddUser path) w1))"
  by (simp add: create_def chk findUser_False [OF nfound] Let_def findOfficeKey_def
        split: http_outcome.split option.split)

lemma update_not_found:
  assumes chk: "first_empty (dict_iter e (update_locals username newusername loginDisabled)) = None"
    and nfound: "\<not> fst (findUser cfg e (principal_name cfg username) w)"
  shows "update cfg e username newusername loginDisabled w =
           (''ERROR: user could not be found in Dialpad!'',
            log_request (FindUser (user_path cfg (principal_name cfg username))) w)"
  by (simp add: update_def chk findUser_False [OF nfound] Let_def)

lemma update_rename:
  assumes chk: "first_empty (dict_iter e (update_locals username newusername loginDisabled)) = None"
    and found: "fst (findUser cfg e (principal_name cfg username) w)"
    and diff: "username \<noteq> newusername"
  shows "update cfg e username newusername loginDisabled w =
           (''ERROR: renaming users in Dialpad is not supported - emailed Dialpad admin!'',
            sendMail cfg e (FROM cfg) (TO cfg)
              (''Rename Dialpad user: '' @ username @ '' to '' @ newusername)
              ''Please rename Dialpad user account manually.''
              (log_request (FindUser (user_path cfg (principal_name cfg username))) w))"
  by (simp add: update_def chk findUser_True [OF found] diff Let_def)

lemma update_state:
  assumes chk: "first_empty (dict_iter e (update_locals username username loginDisabled)) = None"
    and found: "fst (findUser cfg e (principal_name cfg username) w)"
  shows "update cfg e username username loginDisabled w =
           (let w1 = log_request (FindUser (user_path cfg (principal_name cfg username))) w;
                path = user_path cfg (principal_name cfg username) @ ''&action=''
                         @ (if loginDisabled = ''True'' then ''suspend'' else ''reactivate'')
            in (case http_reply e w1 path of
                  Raised \<Rightarrow> ''ERROR: Could not update Dialpad user.''
                | Response status data \<Rightarrow>
                    if status \<noteq> 200 then ''ERROR: could not update Dialpad user.''
                    else ''SUCCESS: user was updated in Dialpad.'',
                log_request (UpdateUser path) w1))"
  by (simp add: update_def chk findUser_True [OF found] Let_def split: http_outcome.split)

lemma delete_not_found:
  assumes "username \<noteq> ''''"
    and nfound: "\<not> fst (findUser cfg e (principal_name cfg username) w)"
  shows "delete cfg e username w =
           (''ERROR: user could not be found in Dialpad!'',
            log_request (FindUser (user_path cfg (principal_name cfg username))) w)"
  using assms(1) by (simp add: delete_def findUser_False [OF nfound] Let_def)

lemma delete_found:
  assumes "username \<noteq> ''''"
    and found: "fst (findUser cfg e (principal_name cfg username) w)"
  shows "delete cfg e username w =
           (let w1 = log_request (FindUser (user_path cfg (principal_name cfg username))) w;
                path = user_path cfg (principal_name cfg username) @ ''&action=delete''
            in (case http_reply e w1 path of
                  Raised \<Rightarrow> ''ERROR: Could not delete Dialpad user.''
                | Response status data \<Rightarrow>
                    if status \<noteq> 200 then ''ERROR: could not delete user in Dialpad.''
                    else ''SUCCESS: user deleted in Dialpad.'',
                log_request (DeleteUser path) w1))"
  using assms(1)
  by (simp add: delete_def findUser_True [OF found] Let_def split: http_outcome.split)

lemma requests_log_request: "requests (log_request c w) = requests w @ [c]"
  by (simp add: log_request_def)

lemma log2_eq:
  "(log_request c (log_request d w) = log_request c' (log_request d' w)) = (c = c' \<and> d = d')"
proof
  assume "log_request c (log_request d w) = log_request c' (log_request d' w)"
  then have "requests (log_request c (log_request d w)) =
             requests (log_request c' (log_request d' w))"
    by simp
  then show "c = c' \<and> d = d'"
    by (simp add: requests_log_request)
next
  assume "c = c' \<and> d = d'"
  then show "log_request c (log_request d w) = log_request c' (log_request d' w)"
    by simp
qed

lemma log2_neq_log1: "log_request c (log_request d w) \<noteq> log_request d' w"
proof
  assume "log_request c (log_request d w) = log_request d' w"
  then have "length (requests (log_request c (log_request d w))) =
             length (requests (log_request d' w))"
    by simp
  then show False
    by (simp add: requests_log_request)
qed

lemma log2_neq: "log_request c (log_request d w) \<noteq> w"
proof
  assume "log_request c (log_request d w) = w"
  then have "length (requests (log_request c (log_request d w))) = length (requests w)"
    by simp
  then show False
    by (simp add: requests_log_request)
qed

lemma log2_neq_sendMail:
  "log_request c (log_request d w) \<noteq> sendMail cfg e frm to subject text (log_request d' w)"
proof
  assume "log_request c (log_request d w) = sendMail cfg e frm to subject text (log_request d' w)"
  then have "length (requests (log_request c (log_request d w))) =
             length (requests (sendMail cfg e frm to subject text (log_request d' w)))"
    by simp
  then show False
    by (simp add: requests_log_request sendMail_def Let_def)
qed

lemma create_outcome:
  "\<exists>result w'.
     create cfg e username givenName sn ou w = (result, w')
     \<and> is_error result = (\<not> is_success result)
     \<and> is_success result =
          (\<exists>p path data.
             w' = log_request (AddUser path) (log_request (FindUser p) w)
             \<and> http_reply e (log_request (FindUser p) w) path = Response 200 data)
     \<and> (username = '''' \<or> givenName = '''' \<or> sn = '''' \<or> ou = '''' \<longrightarrow>
          is_error result \<and> w' = w)"
proof (cases "first_empty (dict_iter e (create_locals username givenName sn ou))")
  case (Some item)
  then have "create cfg e username givenName sn ou w = (missing_value item, w)"
    by (simp add: create_def)
  then show ?thesis
    using log2_neq [of _ _ w] by (simp add: missing_value_is_error) metis
next
  case None
  have filled: "\<not> (username = '''' \<or> givenName = '''' \<or> sn = '''' \<or> ou = '''')"
  proof
    assume "username = '''' \<or> givenName = '''' \<or> sn = '''' \<or> ou = ''''"
    then obtain k where "(k, '''') \<in> set (create_locals username givenName sn ou)"
      using create_locals_empty by blast
    then obtain item where
      "first_empty (dict_iter e (create_locals username givenName sn ou)) = Some item"
      using first_empty_dict_iter by blast
    with None show False by simp
  qed
  show ?thesis
  proof (cases "fst (findUser cfg e (principal_name cfg username) w)")
    case True
    with None filled show ?thesis
      by (simp add: create_found is_error_def is_success_def log2_neq_log1 [symmetric])
  next
    case False
    with None filled show ?thesis
      by (auto simp: create_not_found Let_def is_error_def is_success_def log2_eq
            split: http_outcome.splits)
  qed
qed

lemma update_outcome:
  "\<exists>result w'.
     update cfg e username newusername loginDisabled w = (result, w')
     \<and> is_error result = (\<not> is_success result)
     \<and> is_success result =
          (\<exists>p path data.
             w' = log_request (UpdateUser path) (log_request (FindUser p) w)
             \<and> http_reply e (log_request (FindUser p) w) path = Response 200 data)
     \<and> (username = '''' \<or> newusername = '''' \<or> loginDisabled = '''' \<longrightarrow>
          is_error result \<and> w' = w)"
proof (cases "first_empty (dict_iter e (update_locals username newusername loginDisabled))")
  case (Some item)
  then have "update cfg e username newusername loginDisabled w = (missing_value item, w)"
    by (simp add: update_def)
  then show ?thesis
    using log2_neq [of _ _ w] by (simp add: missing_value_is_error) metis
next
  case None
  have filled: "\<not> (username = '''' \<or> newusername = '''' \<or> loginDisabled = '''')"
  proof
    assume "username = '''' \<or> newusername = '''' \<or> loginDisabled = ''''"
    then obtain k where "(k, '''') \<in> set (update_locals username newusername loginDisabled)"
      using update_locals_empty by blast
    then obtain item where
      "first_empty (dict_iter e (update_locals username newusername loginDisabled)) = Some item"
      using first_empty_dict_iter by blast
    with None show False by simp
  qed
  show ?thesis
  proof (cases "fst (findUser cfg e (principal_name cfg username) w)")
    case False
    with None filled show ?thesis
      by (simp add: update_not_found is_error_def is_success_def log2_neq_log1 [symmetric])
  next
    case True
    show ?thesis
    proof (cases "username = newusername")
      case False
      with None True filled show ?thesis
        by (simp add: update_rename is_error_def is_success_def log2_neq_sendMail [symmetric])
    next
      case same: True
      from None True filled show ?thesis
        unfolding same [symmetric]
        by (auto simp: update_state Let_def is_error_def is_success_def log2_eq
              split: http_outcome.splits)
    qed
  qed
qed

lemma delete_outcome:
  "\<exists>result w'.
     delete cfg e username w = (result, w')
     \<and> is_error result = (\<not> is_success result)
     \<and> is_success result =
          (\<exists>p path data.
             w' = log_request (DeleteUser path) (log_request (FindUser p) w)
             \<and> http_reply e (log_request (FindUser p) w) path = Response 200 data)
     \<and> (username = '''' \<longrightarrow> is_error result \<and> w' = w)"
proof (cases "username = ''''")
  case True
  then have "delete cfg e username w =
      (''ERROR: Missing an expected input value for username in input file.'', w)"
    by (simp add: delete_def)
  then show ?thesis
    using log2_neq [of _ _ w] by (simp add: is_error_def is_success_def) metis
next
  case filled: False
  show ?thesis
  proof (cases "fst (findUser cfg e (principal_name cfg username) w)")
    case False
    with filled show ?thesis
      by (simp add: delete_not_found is_error_def is_success_def log2_neq_log1 [symmetric])
  next
    case True
    with filled show ?thesis
      by (auto simp: delete_found Let_def is_error_def is_success_def log2_eq
            split: http_outcome.splits)
  qed
qed

subsection \<open>The loop body and the loop\<close>

lemma is_ascii_iff: "is_ascii s \<longleftrightarrow> (\<forall>c \<in> set s. of_char c < (128::nat))"
proof -
  have "\<forall>c. (\<not> digit7 c) = (of_char c < (128::nat))"
  proof
    fix c
    show "(\<not> digit7 c) = (of_char c < (128::nat))"
      by (cases c) (simp add: of_char_def)
  qed
  then show ?thesis
    by (simp add: is_ascii_def list_all_iff)
qed

lemma py_str_encodable: "encodable v \<Longrightarrow> \<exists>s. py_str v = Inr s"
  by (cases v) (simp_all add: py_str_def encodable_def)

lemma py_str_not_encodable: "\<not> encodable v \<Longrightarrow> py_str v = Inl UnicodeEncodeError"
  by (cases v) (simp_all add: py_str_def encodable_def)

lemma csv_text_encodable: "encodable v \<Longrightarrow> \<exists>s. csv_text v = Inr s"
  by (cases v) (simp_all add: csv_text_def encodable_def)

lemma csv_text_not_encodable: "\<not> encodable v \<Longrightarrow> csv_text v = Inl UnicodeEncodeError"
  by (cases v) (simp_all add: csv_text_def encodable_def)

lemma str_item_Inr:
  "(\<exists>s. str_item r k = Inr s) = (\<exists>v. r k = Some v \<and> encodable v)"
proof (cases "r k")
  case None
  then show ?thesis by (simp add: str_item_def getitem_def)
next
  case (Some v)
  show ?thesis
  proof (cases "encodable v")
    case True
    with Some py_str_encodable [of v] show ?thesis
      by (simp add: str_item_def getitem_def)
  next
    case False
    with Some py_str_not_encodable [of v] show ?thesis
      by (simp add: str_item_def getitem_def)
  qed
qed

lemma writerow_label:
  "label r = Some (a, u) \<Longrightarrow> writerow r result = Inr (a, u, result)"
  by (auto simp: label_def writerow_def getitem_def split: option.splits sum.splits)

lemma readable_label:
  assumes "readable r"
  shows "\<exists>a u. label r = Some (a, u)"
proof -
  from assms obtain action where act: "r ''action'' = Some action" "encodable action"
    and keys: "list_all (\<lambda>k. case r k of None \<Rightarrow> False | Some v \<Rightarrow> encodable v)
                (read_keys action)"
    by (auto simp: readable_def split: option.splits)
  have "''username'' \<in> set (read_keys action)"
    by (simp add: read_keys_def)
  with keys obtain username where usr: "r ''username'' = Some username" "encodable username"
    by (auto simp: list_all_iff split: option.splits)
  from act(2) obtain a where "csv_text action = Inr a"
    using csv_text_encodable by blast
  moreover from usr(2) obtain u where "csv_text username = Inr u"
    using csv_text_encodable by blast
  ultimately show ?thesis
    using act(1) usr(1) by (simp add: label_def)
qed

lemma process_row_create:
  assumes "r ''action'' = Some (JString ''create'')"
    and "str_item r ''username'' = Inr username" and "str_item r ''givenName'' = Inr givenName"
    and "str_item r ''sn'' = Inr sn" and "str_item r ''primO'' = Inr primO"
  shows "process_row cfg e r w =
           (writerow r (fst (create cfg e username givenName sn primO w)),
            snd (create cfg e username givenName sn primO w))"
  using assms by (simp add: process_row_def getitem_def split_beta)

lemma process_row_update:
  assumes "r ''action'' = Some (JString ''update'')"
    and "str_item r ''username'' = Inr username" and "str_item r ''newusername'' = Inr newusername"
    and "str_item r ''loginDisabled'' = Inr loginDisabled"
  shows "process_row cfg e r w =
           (writerow r (fst (update cfg e username newusername loginDisabled w)),
            snd (update cfg e username newusername loginDisabled w))"
  using assms by (simp add: process_row_def getitem_def split_beta)

lemma process_row_delete:
  assumes "r ''action'' = Some (JString ''delete'')"
    and "str_item r ''username'' = Inr username"
  shows "process_row cfg e r w =
           (writerow r (fst (delete cfg e username w)), snd (delete cfg e username w))"
  using assms by (simp add: process_row_def getitem_def split_beta)

lemma process_row_unknown:
  assumes "r ''action'' = Some action" and "py_str action = Inr message"
    and "action \<noteq> JString ''create''" and "action \<noteq> JString ''update''"
    and "action \<noteq> JString ''delete''"
  shows "process_row cfg e r w = (writerow r ''ERROR: Unrecognized action.'', w)"
  using assms by (simp add: process_row_def getitem_def)

lemma readable_keys:
  assumes "readable r" and "r ''action'' = Some action" and "k \<in> set (read_keys action)"
  shows "\<exists>s v. str_item r k = Inr s \<and> r k = Some v \<and> py_str v = Inr s"
proof -
  from assms have "case r k of None \<Rightarrow> False | Some v \<Rightarrow> encodable v"
    by (auto simp: readable_def list_all_iff)
  then obtain v where v: "r k = Some v" "encodable v"
    by (auto split: option.splits)
  then obtain s where "py_str v = Inr s"
    using py_str_encodable by blast
  with v show ?thesis
    by (simp add: str_item_def getitem_def)
qed

lemma process_row_Inl:
  assumes "\<not> readable r"
  shows "\<exists>err. process_row cfg e r w = (Inl err, w)"
proof (cases "r ''action''")
  case None
  then show ?thesis by (simp add: process_row_def getitem_def)
next
  case (Some action)
  consider (create) "action = JString ''create''" | (update) "action = JString ''update''"
    | (delete) "action = JString ''delete''"
    | (unknown) "action \<noteq> JString ''create''" "action \<noteq> JString ''update''"
        "action \<noteq> JString ''delete''"
    by blast
  then show ?thesis
  proof cases
    case create
    with assms Some have
      "\<not> ((\<exists>v. r ''username'' = Some v \<and> encodable v) \<and> (\<exists>v. r ''givenName'' = Some v \<and> encodable v)
          \<and> (\<exists>v. r ''sn'' = Some v \<and> encodable v) \<and> (\<exists>v. r ''primO'' = Some v \<and> encodable v))"
      by (auto simp: readable_def read_keys_def encodable_def is_ascii_def split: option.splits)
    then have "\<not> ((\<exists>s. str_item r ''username'' = Inr s) \<and> (\<exists>s. str_item r ''givenName'' = Inr s)
          \<and> (\<exists>s. str_item r ''sn'' = Inr s) \<and> (\<exists>s. str_item r ''primO'' = Inr s))"
      by (simp add: str_item_Inr)
    with Some create show ?thesis
      by (auto simp: process_row_def getitem_def split: sum.splits)
  next
    case update
    with assms Some have
      "\<not> ((\<exists>v. r ''username'' = Some v \<and> encodable v) \<and> (\<exists>v. r ''newusername'' = Some v \<and> encodable v)
          \<and> (\<exists>v. r ''loginDisabled'' = Some v \<and> encodable v))"
      by (auto simp: readable_def read_keys_def encodable_def is_ascii_def split: option.splits)
    then have "\<not> ((\<exists>s. str_item r ''username'' = Inr s) \<and> (\<exists>s. str_item r ''newusername'' = Inr s)
          \<and> (\<exists>s. str_item r ''loginDisabled'' = Inr s))"
      by (simp add: str_item_Inr)
    with Some update show ?thesis
      by (auto simp: process_row_def getitem_def split: sum.splits)
  next
    case delete
    with assms Some have "\<not> (\<exists>v. r ''username'' = Some v \<and> encodable v)"
      by (auto simp: readable_def read_keys_def encodable_def is_ascii_def split: option.splits)
    then have "\<not> (\<exists>s. str_item r ''username'' = Inr s)"
      by (simp add: str_item_Inr)
    with Some delete show ?thesis
      by (auto simp: process_row_def getitem_def split: sum.splits)
  next
    case unknown
    show ?thesis
    proof (cases "encodable action")
      case False
      then have "py_str action = Inl UnicodeEncodeError"
        by (rule py_str_not_encodable)
      with Some unknown show ?thesis
        by (simp add: process_row_def getitem_def)
    next
      case True
      then obtain message where m: "py_str action = Inr message"
        using py_str_encodable by blast
      from assms Some True unknown have u: "\<not> (\<exists>v. r ''username'' = Some v \<and> encodable v)"
        by (auto simp: readable_def read_keys_def split: option.splits)
      have "\<exists>err. writerow r ''ERROR: Unrecognized action.'' = Inl err"
      proof (cases "r ''username''")
        case None
        with Some show ?thesis by (simp add: writerow_def getitem_def)
      next
        case (Some username)
        with u have "\<not> encodable username" by simp
        then have "csv_text username = Inl UnicodeEncodeError"
          by (rule csv_text_not_encodable)
        with Some \<open>r ''action'' = Some action\<close> show ?thesis
          by (simp add: writerow_def getitem_def split: sum.splits)
      qed
      with Some m unknown show ?thesis
        by (auto simp: process_row_unknown)
    qed
  qed
qed

lemma process_row_readable:
  assumes "readable r"
  shows "\<exists>action a u result w'.
           r ''action'' = Some action
         \<and> process_row cfg e r w = (Inr (a, u, result), w')
         \<and> label r = Some (a, u)
         \<and> is_error result = (\<not> is_success result)
         \<and> is_success result =
              (\<exists>p path data c.
                 own_request action path = Some c
                 \<and> w' = log_request c (log_request (FindUser p) w)
                 \<and> http_reply e (log_request (FindUser p) w) path = Response 200 data)
         \<and> ((\<exists>k \<in> set (read_keys action). \<exists>v. r k = Some v \<and> py_str v = Inr '''') \<longrightarrow>
              is_error result \<and> w' = w)
         \<and> run_rows cfg e (r # rs) out w = run_rows cfg e rs (out @ [(a, u, result)]) w'"
proof -
  from assms obtain action where act: "r ''action'' = Some action" and enc: "encodable action"
    by (auto simp: readable_def split: option.splits)
  from assms obtain a u where lab: "label r = Some (a, u)"
    using readable_label by blast
  note key = readable_keys [OF assms act]
  consider (create) "action = JString ''create''" | (update) "action = JString ''update''"
    | (delete) "action = JString ''delete''"
    | (unknown) "action \<noteq> JString ''create''" "action \<noteq> JString ''update''"
        "action \<noteq> JString ''delete''"
    by blast
  then show ?thesis
  proof cases
    case create
    have ks: "read_keys action = [''username'', ''givenName'', ''sn'', ''primO'']"
      using create by (simp add: read_keys_def)
    obtain username vu where f1: "str_item r ''username'' = Inr username"
      "r ''username'' = Some vu" "py_str vu = Inr username"
      using key [of "''username''"] ks by auto
    obtain givenName vg where f2: "str_item r ''givenName'' = Inr givenName"
      "r ''givenName'' = Some vg" "py_str vg = Inr givenName"
      using key [of "''givenName''"] ks by auto
    obtain sn vs where f3: "str_item r ''sn'' = Inr sn"
      "r ''sn'' = Some vs" "py_str vs = Inr sn"
      using key [of "''sn''"] ks by auto
    obtain primO vp where f4: "str_item r ''primO'' = Inr primO"
      "r ''primO'' = Some vp" "py_str vp = Inr primO"
      using key [of "''primO''"] ks by auto
    obtain result w' where o: "create cfg e username givenName sn primO w = (result, w')"
      "is_error result = (\<not> is_success result)"
      "is_success result =
          (\<exists>p path data.
             w' = log_request (AddUser path) (log_request (FindUser p) w)
             \<and> http_reply e (log_request (FindUser p) w) path = Response 200 data)"
      "username = '''' \<or> givenName = '''' \<or> sn = '''' \<or> primO = '''' \<longrightarrow> is_error result \<and> w' = w"
      using create_outcome [of cfg e username givenName sn primO w] by blast
    have p: "process_row cfg e r w = (Inr (a, u, result), w')"
      using act create f1(1) f2(1) f3(1) f4(1) o(1) lab
      by (simp add: process_row_create writerow_label)
    have s: "is_success result =
              (\<exists>p path data c.
                 own_request action path = Some c
                 \<and> w' = log_request c (log_request (FindUser p) w)
                 \<and> http_reply e (log_request (FindUser p) w) path = Response 200 data)"
      using o(3) create by (simp add: own_request_def)
    have m: "(\<exists>k \<in> set (read_keys action). \<exists>v. r k = Some v \<and> py_str v = Inr '''') \<longrightarrow>
              is_error result \<and> w' = w"
      using o(4) f1 f2 f3 f4 ks by auto
    have "run_rows cfg e (r # rs) out w = run_rows cfg e rs (out @ [(a, u, result)]) w'"
      using p by simp
    with act p lab o(2) s m show ?thesis by blast
  next
    case update
    have ks: "read_keys action = [''username'', ''newusername'', ''loginDisabled'']"
      using update by (simp add: read_keys_def)
    obtain username vu where f1: "str_item r ''username'' = Inr username"
      "r ''username'' = Some vu" "py_str vu = Inr username"
      using key [of "''username''"] ks by auto
    obtain newusername vn where f2: "str_item r ''newusername'' = Inr newusername"
      "r ''newusername'' = Some vn" "py_str vn = Inr newusername"
      using key [of "''newusername''"] ks by auto
    obtain loginDisabled vl where f3: "str_item r ''loginDisabled'' = Inr loginDisabled"
      "r ''loginDisabled'' = Some vl" "py_str vl = Inr loginDisabled"
      using key [of "''loginDisabled''"] ks by auto
    obtain result w' where o: "update cfg e username newusername loginDisabled w = (result, w')"
      "is_error result = (\<not> is_success result)"
      "is_success result =
          (\<exists>p path data.
             w' = log_request (UpdateUser path) (log_request (FindUser p) w)
             \<and> http_reply e (log_request (FindUser p) w) path = Response 200 data)"
      "username = '''' \<or> newusername = '''' \<or> loginDisabled = '''' \<longrightarrow> is_error result \<and> w' = w"
      using update_outcome [of cfg e username newusername loginDisabled w] by blast
    have p: "process_row cfg e r w = (Inr (a, u, result), w')"
      using act update f1(1) f2(1) f3(1) o(1) lab
      by (simp add: process_row_update writerow_label)
    have s: "is_success result =
              (\<exists>p path data c.
                 own_request action path = Some c
                 \<and> w' = log_request c (log_request (FindUser p) w)
                 \<and> http_reply e (log_request (FindUser p) w) path = Response 200 data)"
      using o(3) update by (simp add: own_request_def)
    have m: "(\<exists>k \<in> set (read_keys action). \<exists>v. r k = Some v \<and> py_str v = Inr '''') \<longrightarrow>
              is_error result \<and> w' = w"
      using o(4) f1 f2 f3 ks by auto
    have "run_rows cfg e (r # rs) out w = run_rows cfg e rs (out @ [(a, u, result)]) w'"
      using p by simp
    with act p lab o(2) s m show ?thesis by blast
  next
    case delete
    have ks: "read_keys action = [''username'']"
      using delete by (simp add: read_keys_def)
    obtain username vu where f1: "str_item r ''username'' = Inr username"
      "r ''username'' = Some vu" "py_str vu = Inr username"
      using key [of "''username''"] ks by auto
    obtain result w' where o: "delete cfg e username w = (result, w')"
      "is_error result = (\<not> is_success result)"
      "is_success result =
          (\<exists>p path data.
             w' = log_request (DeleteUser path) (log_request (FindUser p) w)
             \<and> http_reply e (log_request (FindUser p) w) path = Response 200 data)"
      "username = '''' \<longrightarrow> is_error result \<and> w' = w"
      using delete_outcome [of cfg e username w] by blast
    have p: "process_row cfg e r w = (Inr (a, u, result), w')"
      using act delete f1(1) o(1) lab
      by (simp add: process_row_delete writerow_label)
    have s: "is_success result =
              (\<exists>p path data c.
                 own_request action path = Some c
                 \<and> w' = log_request c (log_request (FindUser p) w)
                 \<and> http_reply e (log_request (FindUser p) w) path = Response 200 data)"
      using o(3) delete by (simp add: own_request_def)
    have m: "(\<exists>k \<in> set (read_keys action). \<exists>v. r k = Some v \<and> py_str v = Inr '''') \<longrightarrow>
              is_error result \<and> w' = w"
      using o(4) f1 ks by auto
    have "run_rows cfg e (r # rs) out w = run_rows cfg e rs (out @ [(a, u, result)]) w'"
      using p by simp
    with act p lab o(2) s m show ?thesis by blast
  next
    case unknown
    from enc obtain message where "py_str action = Inr message"
      using py_str_encodable by blast
    with act unknown lab
    have p: "process_row cfg e r w = (Inr (a, u, ''ERROR: Unrecognized action.''), w)"
      by (simp add: process_row_unknown writerow_label)
    have c: "is_error ''ERROR: Unrecognized action.''"
      "\<not> is_success ''ERROR: Unrecognized action.''"
      by (simp_all add: is_error_def is_success_def)
    have s: "is_success ''ERROR: Unrecognized action.'' =
              (\<exists>p path data c.
                 own_request action path = Some c
                 \<and> w = log_request c (log_request (FindUser p) w)
                 \<and> http_reply e (log_request (FindUser p) w) path = Response 200 data)"
      using unknown c(2) by (simp add: own_request_def)
    have "run_rows cfg e (r # rs) out w =
          run_rows cfg e rs (out @ [(a, u, ''ERROR: Unrecognized action.'')]) w"
      using p by simp
    with act p lab c s show ?thesis by blast
  qed
qed

lemma run_rows_shape:
  "\<exists>rows w' err.
     run_rows cfg e batch out w = (out @ rows, w', err)
     \<and> map (\<lambda>(action, username, result). Some (action, username)) rows =
         map label (takeWhile readable batch)
     \<and> (err = None) = (\<forall>r \<in> set batch. readable r)"
proof (induction batch arbitrary: out w)
  case Nil
  then show ?case by simp
next
  case (Cons r rs)
  show ?case
  proof (cases "readable r")
    case False
    then obtain err where "process_row cfg e r w = (Inl err, w)"
      using process_row_Inl by blast
    with False show ?thesis by simp
  next
    case True
    then obtain a u result w1 where
      p: "process_row cfg e r w = (Inr (a, u, result), w1)"
      and l: "label r = Some (a, u)"
      using process_row_readable [of r cfg e w] by blast
    from Cons.IH [of "out @ [(a, u, result)]" w1]
    obtain rows w' err where
      ih: "run_rows cfg e rs (out @ [(a, u, result)]) w1 =
             ((out @ [(a, u, result)]) @ rows, w', err)"
        "map (\<lambda>(action, username, result). Some (action, username)) rows =
           map label (takeWhile readable rs)"
        "(err = None) = (\<forall>r \<in> set rs. readable r)"
      by blast
    have "run_rows cfg e (r # rs) out w = (out @ ((a, u, result) # rows), w', err)"
      using p ih(1) by simp
    moreover have "map (\<lambda>(action, username, result). Some (action, username))
                     ((a, u, result) # rows) =
                   map label (takeWhile readable (r # rs))"
      using True l ih(2) by simp
    moreover have "(err = None) = (\<forall>r \<in> set (r # rs). readable r)"
      using True ih(3) by simp
    ultimately show ?thesis by blast
  qed
qed

subsection \<open>Unfolding on concrete inputs\<close>

lemmas eval_defs =
  findUser_def scripted_def world0_def principal_name_def settings0_def user_path_def
  log_request_def Let_def

lemmas run_defs =
  process_row_def getitem_def str_item_def py_str_def csv_text_def writerow_def is_ascii_def
  create_def update_def delete_def create_locals_def
  update_locals_def dict_iter_def findOfficeKey_def missing_value_def report_def

lemmas vocabulary_defs =
  readable_def read_keys_def encodable_def label_def is_ascii_def csv_text_def py_str_def

section \<open>The properties\<close>

subsection \<open>C1: one output line per record\<close>

text \<open>
  C1, as stated, fails. The claim promises one result line per input record for every
  batch, also for a record that lacks a required field entirely. In \<^verbatim>\<open>main\<close> such a
  record raises \<^verbatim>\<open>KeyError\<close> at \<^verbatim>\<open>row["givenName"]\<close>; the only handler is the one
  around the whole loop, so the loop ends there: with three records, the second without
  the key \<^verbatim>\<open>givenName\<close>, the report has one line, not three. The same happens to a
  record that has all its fields when one of them is a string with a non-ASCII character:
  \<^verbatim>\<open>str(row["givenName"])\<close> raises \<^verbatim>\<open>UnicodeEncodeError\<close>, and a batch of two
  records that starts with such a record has no line at all.
\<close>

theorem report_stops_at_missing_key:
  "report settings0 (scripted [Response 200 ''[]'', Response 200 ''ok''] True)
     [sample_create, sample_no_givenName, sample_delete] world0 =
     [(''create'', ''testuserj'', ''SUCCESS: user was created in Dialpad.'')]
   \<and> length (report settings0 (scripted [Response 200 ''[]'', Response 200 ''ok''] True)
         [sample_create, sample_no_givenName, sample_delete] world0)
       \<noteq> length [sample_create, sample_no_givenName, sample_delete]
   \<and> report settings0 (scripted [Response 200 ''[]'', Response 200 ''ok''] True)
       [sample_umlaut, sample_delete] world0 = []
   \<and> length (report settings0 (scripted [Response 200 ''[]'', Response 200 ''ok''] True)
         [sample_umlaut, sample_delete] world0)
       \<noteq> length [sample_umlaut, sample_delete]"
  by (simp add: run_defs eval_defs sample_create_def sample_no_givenName_def sample_delete_def
        sample_umlaut_def)

text \<open>
  C1, amended. Call a record readable when it has the key \<^verbatim>\<open>action\<close> and the keys
  read for its action (\<^verbatim>\<open>username\<close> always; \<^verbatim>\<open>givenName\<close>, \<^verbatim>\<open>sn\<close>, \<^verbatim>\<open>primO\<close>
  for create; \<^verbatim>\<open>newusername\<close>, \<^verbatim>\<open>loginDisabled\<close> for update) and none of these
  values is a string with a non-ASCII character. The lines of the report are, in input
  order, the lines of the records of the longest initial run of readable records, each
  with the action and the username of its record as the csv writer writes them. Hence,
  for every batch in which every record is readable, the report has exactly one line per
  record, in the order of the input, and the loop ends without an exception: whatever
  the values are otherwise (empty strings, \<^verbatim>\<open>null\<close>, numbers) and whatever the remote
  service answers or raises.
\<close>

theorem report_one_row_per_record:
  "map (\<lambda>(action, username, result). Some (action, username)) (report cfg e batch w) =
     map label (takeWhile readable batch)
   \<and> ((\<forall>r \<in> set batch. readable r) \<longrightarrow>
        length (report cfg e batch w) = length batch
        \<and> map (\<lambda>(action, username, result). Some (action, username)) (report cfg e batch w) =
            map label batch
        \<and> snd (snd (run_rows cfg e batch [] w)) = None)"
proof -
  obtain rows w' err where
    r: "run_rows cfg e batch [] w = ([] @ rows, w', err)"
    and m: "map (\<lambda>(action, username, result). Some (action, username)) rows =
         map label (takeWhile readable batch)"
    and n: "(err = None) = (\<forall>r \<in> set batch. readable r)"
    using run_rows_shape [of cfg e batch "[]" w] by blast
  have rep: "report cfg e batch w = rows"
    using r by (simp add: report_def)
  have first: "map (\<lambda>(action, username, result). Some (action, username)) (report cfg e batch w) =
     map label (takeWhile readable batch)"
    using rep m by simp
  have second: "(\<forall>r \<in> set batch. readable r) \<longrightarrow>
        length (report cfg e batch w) = length batch
        \<and> map (\<lambda>(action, username, result). Some (action, username)) (report cfg e batch w) =
            map label batch
        \<and> snd (snd (run_rows cfg e batch [] w)) = None"
  proof
    assume all: "\<forall>r \<in> set batch. readable r"
    then have tw: "takeWhile readable batch = batch"
      by simp
    from first tw have mm: "map (\<lambda>(action, username, result). Some (action, username))
        (report cfg e batch w) = map label batch"
      by simp
    from mm have "length (report cfg e batch w) = length batch"
      using map_eq_imp_length_eq by blast
    moreover from all n r have "snd (snd (run_rows cfg e batch [] w)) = None"
      by simp
    ultimately show "length (report cfg e batch w) = length batch
        \<and> map (\<lambda>(action, username, result). Some (action, username)) (report cfg e batch w) =
            map label batch
        \<and> snd (snd (run_rows cfg e batch [] w)) = None"
      using mm by blast
  qed
  from first second show ?thesis by blast
qed

text \<open>
  C1, amended, on a batch of three readable records: a create that succeeds, a create
  with an empty given name, and a delete with the username \<^verbatim>\<open>null\<close> whose requests
  both raise. The csv writer writes \<^verbatim>\<open>null\<close> as the empty field.
\<close>

theorem report_one_row_per_record_witness:
  "list_all readable [sample_create, sample_empty_givenName, sample_delete_null]
   \<and> length (report settings0 (scripted [Response 200 ''[]'', Response 200 ''ok''] True)
        [sample_create, sample_empty_givenName, sample_delete_null] world0) = 3
   \<and> map (\<lambda>(action, username, result). (action, username))
        (report settings0 (scripted [Response 200 ''[]'', Response 200 ''ok''] True)
           [sample_create, sample_empty_givenName, sample_delete_null] world0) =
       [(''create'', ''testuserj''), (''create'', ''testuserj''), (''delete'', '''')]"
proof -
  let ?e = "scripted [Response 200 ''[]'', Response 200 ''ok''] True"
  let ?batch = "[sample_create, sample_empty_givenName, sample_delete_null]"
  have h: "\<forall>r \<in> set ?batch. readable r"
    by (simp add: vocabulary_defs sample_create_def sample_empty_givenName_def
          sample_delete_null_def)
  from report_one_row_per_record [of settings0 ?e ?batch world0] h
  have l: "length (report settings0 ?e ?batch world0) = length ?batch"
    and m: "map (\<lambda>(action, username, result). Some (action, username))
              (report settings0 ?e ?batch world0) = map label ?batch"
    by blast+
  have "map (\<lambda>(action, username, result). Some (action, username))
              (report settings0 ?e ?batch world0) =
        map Some
          (map (\<lambda>(action, username, result). (action, username))
             (report settings0 ?e ?batch world0))"
    by (simp add: split_beta)
  with m have "map Some
          (map (\<lambda>(action, username, result). (action, username))
             (report settings0 ?e ?batch world0)) =
        map Some [(''create'', ''testuserj''), (''create'', ''testuserj''), (''delete'', '''')]"
    by (simp add: vocabulary_defs sample_create_def sample_empty_givenName_def
          sample_delete_null_def)
  moreover have "inj (Some :: string \<times> string \<Rightarrow> (string \<times> string) option)"
    by simp
  ultimately have "map (\<lambda>(action, username, result). (action, username))
             (report settings0 ?e ?batch world0) =
          [(''create'', ''testuserj''), (''create'', ''testuserj''), (''delete'', '''')]"
    using inj_map_eq_map by blast
  with h l show ?thesis by (simp add: list_all_iff)
qed

subsection \<open>C2: nothing raised by a record ends the batch\<close>

text \<open>
  C2, as stated, fails, in three ways. A missing required field is not turned into an
  error result: for an update record without the key \<^verbatim>\<open>loginDisabled\<close> the loop body
  raises \<^verbatim>\<open>KeyError\<close>, no line is written, and the delete record that follows is never
  processed. A record with a non-ASCII character in a field raises
  \<^verbatim>\<open>UnicodeEncodeError\<close> in the same way. And a non-success remote response is not
  always turned into an error result: when the lookup of an update is answered with
  status 500, \<^verbatim>\<open>findUser\<close> reports the user as existing, the suspend request follows,
  and with status 200 for that request the result is the success text.
\<close>

theorem missing_key_escapes_process_row:
  "process_row settings0 (scripted [Raised, Raised] True) sample_update_no_flag world0 =
     (Inl (KeyError ''loginDisabled''), world0)
   \<and> run_rows settings0 (scripted [Raised, Raised] True)
        [sample_update_no_flag, sample_delete] [] world0 =
       ([], world0, Some (KeyError ''loginDisabled''))
   \<and> process_row settings0 (scripted [Raised, Raised] True) sample_umlaut world0 =
       (Inl UnicodeEncodeError, world0)
   \<and> process_row settings0 (scripted [Response 500 ''oops'', Response 200 ''ok''] True)
        sample_update world0 =
       (Inr (''update'', ''testuserj'', ''SUCCESS: user was updated in Dialpad.''),
        \<lparr>requests =
           [FindUser ''/api/v1/admin/user?api_key=secret&email=testuserj@denison.edu'',
            UpdateUser ''/api/v1/admin/user?api_key=secret&email=testuserj@denison.edu&action=suspend''],
         mails = []\<rparr>)"
  by (simp add: run_defs eval_defs sample_update_no_flag_def sample_umlaut_def sample_update_def)

text \<open>
  C2, amended. For every readable record (its keys present and no non-ASCII character in
  their values), the loop body raises nothing and writes one line, with the record's
  action and username. The result is either an \<^verbatim>\<open>ERROR:\<close> text or a \<^verbatim>\<open>SUCCESS:\<close>
  text, and it is the \<^verbatim>\<open>SUCCESS:\<close> text exactly when, after the lookup, the request
  of the record's own action was issued (add for create, suspend/reactivate for update,
  delete for delete) and answered with status 200. So an exception or a status other
  than 200 in the exchange of the action gives an error result, an unknown action gives
  an error result, and an empty required field gives an error result with the world
  untouched; a failed lookup alone decides nothing (C3 says what it does). In every case
  the loop goes on with the remaining records.
\<close>

theorem process_row_never_raises:
  assumes "readable r"
  shows "\<exists>action a u result w'.
           r ''action'' = Some action
         \<and> process_row cfg e r w = (Inr (a, u, result), w')
         \<and> label r = Some (a, u)
         \<and> is_error result = (\<not> is_success result)
         \<and> is_success result =
              (\<exists>p path data c.
                 own_request action path = Some c
                 \<and> w' = log_request c (log_request (FindUser p) w)
                 \<and> http_reply e (log_request (FindUser p) w) path = Response 200 data)
         \<and> ((\<exists>k \<in> set (read_keys action). \<exists>v. r k = Some v \<and> py_str v = Inr '''') \<longrightarrow>
              is_error result \<and> w' = w)
         \<and> run_rows cfg e (r # rs) out w = run_rows cfg e rs (out @ [(a, u, result)]) w'"
  using assms by (rule process_row_readable)

text \<open>
  C2, amended, on a delete record while every exchange with the remote service raises:
  the result is an error and the loop continues with the next record.
\<close>

theorem process_row_never_raises_witness:
  "readable sample_delete
   \<and> (\<exists>result w'.
        process_row settings0 (scripted [Raised, Raised] True) sample_delete world0 =
          (Inr (''delete'', ''olduser'', result), w')
        \<and> is_error result
        \<and> run_rows settings0 (scripted [Raised, Raised] True)
             [sample_delete, sample_update_no_flag] [] world0 =
           run_rows settings0 (scripted [Raised, Raised] True)
             [sample_update_no_flag] [(''delete'', ''olduser'', result)] w')"
proof -
  let ?e = "scripted [Raised, Raised] True"
  have h: "readable sample_delete"
    by (simp add: vocabulary_defs sample_delete_def)
  from process_row_never_raises [OF h, of settings0 ?e world0 "[sample_update_no_flag]" "[]"]
  obtain action a u result w' where
    p: "process_row settings0 ?e sample_delete world0 = (Inr (a, u, result), w')"
    and f: "label sample_delete = Some (a, u)"
    and c: "is_error result = (\<not> is_success result)"
    and s: "is_success result =
              (\<exists>p path data c.
                 own_request action path = Some c
                 \<and> w' = log_request c (log_request (FindUser p) world0)
                 \<and> http_reply ?e (log_request (FindUser p) world0) path = Response 200 data)"
    and r: "run_rows settings0 ?e (sample_delete # [sample_update_no_flag]) [] world0 =
            run_rows settings0 ?e [sample_update_no_flag] ([] @ [(a, u, result)]) w'"
    by blast
  from f have a: "a = ''delete''" "u = ''olduser''"
    by (simp_all add: vocabulary_defs sample_delete_def)
  have "\<not> is_success result"
  proof
    assume "is_success result"
    with s obtain p path data where
      "http_reply ?e (log_request (FindUser p) world0) path = Response 200 data"
      by blast
    then show False
      by (simp add: scripted_def log_request_def world0_def)
  qed
  with c have "is_error result" by simp
  with h p r a show ?thesis by auto
qed

subsection \<open>C3: a failed lookup counts as an existing user\<close>

text \<open>
  C3. When the lookup for a principal name fails entirely (the exchange raises, or the
  status is not 200), \<^verbatim>\<open>findUser\<close> returns \<^verbatim>\<open>True\<close>. With all required fields
  non-empty, a create then returns the already-exists error and its only request is the
  lookup; an update does not return the not-found error: with the same new username it
  issues the suspend/reactivate request, with a different one it returns the rename error;
  a delete does not return the not-found error and issues the delete request.
\<close>

theorem failed_lookup_counts_as_existing:
  assumes "lookup_failed (http_reply e w (user_path cfg (principal_name cfg username)))"
    and "username \<noteq> ''''" and "givenName \<noteq> ''''" and "sn \<noteq> ''''" and "ou \<noteq> ''''"
    and "newusername \<noteq> ''''" and "loginDisabled \<noteq> ''''"
  shows "fst (findUser cfg e (principal_name cfg username) w)
         \<and> create cfg e username givenName sn ou w =
             (''ERROR: username already exists in Dialpad!'',
              w\<lparr>requests := requests w @ [FindUser (user_path cfg (principal_name cfg username))]\<rparr>)
         \<and> fst (update cfg e username newusername loginDisabled w) \<noteq>
             ''ERROR: user could not be found in Dialpad!''
         \<and> (newusername = username \<longrightarrow>
               requests (snd (update cfg e username newusername loginDisabled w)) =
                 requests w @
                   [FindUser (user_path cfg (principal_name cfg username)),
                    UpdateUser (user_path cfg (principal_name cfg username) @ ''&action=''
                      @ (if loginDisabled = ''True'' then ''suspend'' else ''reactivate''))])
         \<and> (newusername \<noteq> username \<longrightarrow>
               fst (update cfg e username newusername loginDisabled w) =
                 ''ERROR: renaming users in Dialpad is not supported - emailed Dialpad admin!'')
         \<and> fst (delete cfg e username w) \<noteq> ''ERROR: user could not be found in Dialpad!''
         \<and> requests (snd (delete cfg e username w)) =
             requests w @
               [FindUser (user_path cfg (principal_name cfg username)),
                DeleteUser (user_path cfg (principal_name cfg username) @ ''&action=delete'')]"
proof -
  have found: "fst (findUser cfg e (principal_name cfg username) w)"
    using assms(1) by (rule findUser_failed)
  have chk_c: "first_empty (dict_iter e (create_locals username givenName sn ou)) = None"
    using assms(2-5) by (rule create_locals_checked)
  have chk_u: "first_empty (dict_iter e (update_locals username newusername loginDisabled)) = None"
    using assms(2) assms(6) assms(7) by (rule update_locals_checked)
  have c: "create cfg e username givenName sn ou w =
             (''ERROR: username already exists in Dialpad!'',
              w\<lparr>requests := requests w @ [FindUser (user_path cfg (principal_name cfg username))]\<rparr>)"
    by (simp add: create_found [OF chk_c found] log_request_def)
  have u1: "fst (update cfg e username newusername loginDisabled w) \<noteq>
             ''ERROR: user could not be found in Dialpad!''"
  proof (cases "username = newusername")
    case True
    with chk_u found show ?thesis
      by (simp add: update_state Let_def split: http_outcome.split)
  next
    case False
    with chk_u found show ?thesis
      by (simp add: update_rename)
  qed
  have u2: "newusername = username \<longrightarrow>
               requests (snd (update cfg e username newusername loginDisabled w)) =
                 requests w @
                   [FindUser (user_path cfg (principal_name cfg username)),
                    UpdateUser (user_path cfg (principal_name cfg username) @ ''&action=''
                      @ (if loginDisabled = ''True'' then ''suspend'' else ''reactivate''))]"
    using chk_u found by (auto simp: update_state Let_def log_request_def)
  have u3: "newusername \<noteq> username \<longrightarrow>
               fst (update cfg e username newusername loginDisabled w) =
                 ''ERROR: renaming users in Dialpad is not supported - emailed Dialpad admin!''"
    using chk_u found by (auto simp: update_rename)
  have d: "fst (delete cfg e username w) \<noteq> ''ERROR: user could not be found in Dialpad!''
         \<and> requests (snd (delete cfg e username w)) =
             requests w @
               [FindUser (user_path cfg (principal_name cfg username)),
                DeleteUser (user_path cfg (principal_name cfg username) @ ''&action=delete'')]"
    using assms(2) found
    by (simp add: delete_found Let_def log_request_def split: http_outcome.split)
  from found c u1 u2 u3 d show ?thesis by blast
qed

text \<open>
  C3 on a lookup answered with status 500.
\<close>

theorem failed_lookup_counts_as_existing_witness:
  "lookup_failed (http_reply (scripted [Response 500 ''oops'', Response 200 ''ok''] True) world0
      (user_path settings0 (principal_name settings0 ''jdoe'')))
   \<and> fst (findUser settings0 (scripted [Response 500 ''oops'', Response 200 ''ok''] True)
            (principal_name settings0 ''jdoe'') world0)
   \<and> create settings0 (scripted [Response 500 ''oops'', Response 200 ''ok''] True)
        ''jdoe'' ''Jane'' ''Doe'' ''Biology'' world0 =
       (''ERROR: username already exists in Dialpad!'',
        \<lparr>requests = [FindUser ''/api/v1/admin/user?api_key=secret&email=jdoe@denison.edu''],
         mails = []\<rparr>)
   \<and> requests (snd (update settings0 (scripted [Response 500 ''oops'', Response 200 ''ok''] True)
        ''jdoe'' ''jdoe'' ''True'' world0)) =
       [FindUser ''/api/v1/admin/user?api_key=secret&email=jdoe@denison.edu'',
        UpdateUser ''/api/v1/admin/user?api_key=secret&email=jdoe@denison.edu&action=suspend'']
   \<and> requests (snd (delete settings0 (scripted [Response 500 ''oops'', Response 200 ''ok''] True)
        ''jdoe'' world0)) =
       [FindUser ''/api/v1/admin/user?api_key=secret&email=jdoe@denison.edu'',
        DeleteUser ''/api/v1/admin/user?api_key=secret&email=jdoe@denison.edu&action=delete'']"
proof -
  let ?e = "scripted [Response 500 ''oops'', Response 200 ''ok''] True"
  have h: "lookup_failed (http_reply ?e world0 (user_path settings0 (principal_name settings0 ''jdoe'')))"
    by (simp add: lookup_failed_def scripted_def world0_def)
  have n: "''jdoe'' \<noteq> ''''" "''Jane'' \<noteq> ''''" "''Doe'' \<noteq> ''''" "''Biology'' \<noteq> ''''"
    "''True'' \<noteq> ''''"
    by simp_all
  from failed_lookup_counts_as_existing [OF h n(1) n(2) n(3) n(4) n(1) n(5)] h show ?thesis
    by (simp add: user_path_def principal_name_def settings0_def world0_def)
qed

subsection \<open>C4: create for a user that exists\<close>

text \<open>
  C4. For a create with all four fields non-empty whose principal name the existence
  check reports as existing, the result is \<^verbatim>\<open>ERROR: username already exists in Dialpad!\<close>
  and the world afterwards differs from the world before by the lookup request alone: no
  add request is issued.
\<close>

theorem create_existing_user:
  assumes "username \<noteq> ''''" and "givenName \<noteq> ''''" and "sn \<noteq> ''''" and "ou \<noteq> ''''"
    and "fst (findUser cfg e (principal_name cfg username) w)"
  shows "create cfg e username givenName sn ou w =
           (''ERROR: username already exists in Dialpad!'',
            log_request (FindUser (user_path cfg (principal_name cfg username))) w)"
  using assms by (simp add: create_found create_locals_checked)

text \<open>
  C4 on the user jdoe, found in the body of the lookup's response.
\<close>

theorem create_existing_user_witness:
  "fst (findUser settings0 (scripted [Response 200 ''email: jdoe@denison.edu''] True)
          (principal_name settings0 ''jdoe'') world0)
   \<and> create settings0 (scripted [Response 200 ''email: jdoe@denison.edu''] True)
        ''jdoe'' ''Jane'' ''Doe'' ''Biology'' world0 =
       (''ERROR: username already exists in Dialpad!'',
        \<lparr>requests = [FindUser ''/api/v1/admin/user?api_key=secret&email=jdoe@denison.edu''],
         mails = []\<rparr>)"
proof -
  have h: "fst (findUser settings0 (scripted [Response 200 ''email: jdoe@denison.edu''] True)
          (principal_name settings0 ''jdoe'') world0)"
    by (simp add: findUser_def scripted_def world0_def principal_name_def settings0_def Let_def)
  have "create settings0 (scripted [Response 200 ''email: jdoe@denison.edu''] True)
        ''jdoe'' ''Jane'' ''Doe'' ''Biology'' world0 =
           (''ERROR: username already exists in Dialpad!'',
            log_request (FindUser (user_path settings0 (principal_name settings0 ''jdoe''))) world0)"
    using h by (intro create_existing_user) simp_all
  then show ?thesis
    using h
    by (simp add: log_request_def user_path_def principal_name_def settings0_def world0_def)
qed

subsection \<open>C5: an update that renames\<close>

text \<open>
  C5. For an update with all three fields non-empty, an existing user and a new username
  different from the username: the result is the rename-not-supported error, the only
  request issued is the lookup, and exactly one notification is added to the
  notifications attempted. The delivery flag of the notification is projected away: the
  statement holds whether the mail server took the message or raised.
\<close>

theorem update_rename_notifies:
  assumes "username \<noteq> ''''" and "newusername \<noteq> ''''" and "loginDisabled \<noteq> ''''"
    and "fst (findUser cfg e (principal_name cfg username) w)"
    and "newusername \<noteq> username"
  shows "fst (update cfg e username newusername loginDisabled w) =
           ''ERROR: renaming users in Dialpad is not supported - emailed Dialpad admin!''
         \<and> requests (snd (update cfg e username newusername loginDisabled w)) =
             requests w @ [FindUser (user_path cfg (principal_name cfg username))]
         \<and> map fst (mails (snd (update cfg e username newusername loginDisabled w))) =
             map fst (mails w) @
               [\<lparr>mail_from = FROM cfg, mail_to = TO cfg,
                 mail_subject = ''Rename Dialpad user: '' @ username @ '' to '' @ newusername,
                 mail_text = ''Please rename Dialpad user account manually.''\<rparr>]"
proof -
  have chk: "first_empty (dict_iter e (update_locals username newusername loginDisabled)) = None"
    using assms(1-3) by (rule update_locals_checked)
  have "username \<noteq> newusername" using assms(5) by simp
  with chk assms(4) have "update cfg e username newusername loginDisabled w =
           (''ERROR: renaming users in Dialpad is not supported - emailed Dialpad admin!'',
            sendMail cfg e (FROM cfg) (TO cfg)
              (''Rename Dialpad user: '' @ username @ '' to '' @ newusername)
              ''Please rename Dialpad user account manually.''
              (log_request (FindUser (user_path cfg (principal_name cfg username))) w))"
    by (rule update_rename)
  then show ?thesis
    by (simp add: sendMail_def log_request_def Let_def)
qed

text \<open>
  C5 on a rename of jdoe to jdoe2 with a mail server that raises.
\<close>

theorem update_rename_notifies_witness:
  "fst (findUser settings0 (scripted [Raised] False) (principal_name settings0 ''jdoe'') world0)
   \<and> ''jdoe2'' \<noteq> ''jdoe''
   \<and> fst (update settings0 (scripted [Raised] False) ''jdoe'' ''jdoe2'' ''False'' world0) =
       ''ERROR: renaming users in Dialpad is not supported - emailed Dialpad admin!''
   \<and> requests (snd (update settings0 (scripted [Raised] False) ''jdoe'' ''jdoe2'' ''False'' world0)) =
       [FindUser ''/api/v1/admin/user?api_key=secret&email=jdoe@denison.edu'']
   \<and> map fst (mails (snd (update settings0 (scripted [Raised] False) ''jdoe'' ''jdoe2'' ''False'' world0))) =
       [\<lparr>mail_from = ''dialpad@denison.edu'', mail_to = ''admin@denison.edu'',
         mail_subject = ''Rename Dialpad user: jdoe to jdoe2'',
         mail_text = ''Please rename Dialpad user account manually.''\<rparr>]"
proof -
  have h: "fst (findUser settings0 (scripted [Raised] False) (principal_name settings0 ''jdoe'') world0)"
    by (simp add: eval_defs)
  have n: "''jdoe'' \<noteq> ''''" "''jdoe2'' \<noteq> ''''" "''False'' \<noteq> ''''" "''jdoe2'' \<noteq> ''jdoe''"
    by simp_all
  from update_rename_notifies [OF n(1) n(2) n(3) h n(4)] h show ?thesis
    by (simp add: user_path_def principal_name_def settings0_def world0_def)
qed

subsection \<open>C6: update and delete for a user that does not exist\<close>

text \<open>
  C6. For an update or a delete with all required fields non-empty whose principal name
  the existence check reports as absent, the result is
  \<^verbatim>\<open>ERROR: user could not be found in Dialpad!\<close> and the world afterwards differs from
  the world before by the lookup request alone: no suspend/reactivate or delete request,
  and no notification, also when the update asks for a rename.
\<close>

theorem update_delete_unknown_user:
  assumes "username \<noteq> ''''" and "newusername \<noteq> ''''" and "loginDisabled \<noteq> ''''"
    and "\<not> fst (findUser cfg e (principal_name cfg username) w)"
  shows "update cfg e username newusername loginDisabled w =
           (''ERROR: user could not be found in Dialpad!'',
            w\<lparr>requests := requests w @ [FindUser (user_path cfg (principal_name cfg username))]\<rparr>)
         \<and> delete cfg e username w =
           (''ERROR: user could not be found in Dialpad!'',
            w\<lparr>requests := requests w @ [FindUser (user_path cfg (principal_name cfg username))]\<rparr>)"
  using assms
  by (simp add: update_not_found delete_not_found update_locals_checked log_request_def)

text \<open>
  C6 on the user jdoe, absent from the body of the lookup's response.
\<close>

theorem update_delete_unknown_user_witness:
  "\<not> fst (findUser settings0 (scripted [Response 200 ''[]''] True)
            (principal_name settings0 ''jdoe'') world0)
   \<and> update settings0 (scripted [Response 200 ''[]''] True) ''jdoe'' ''jdoe'' ''True'' world0 =
       (''ERROR: user could not be found in Dialpad!'',
        \<lparr>requests = [FindUser ''/api/v1/admin/user?api_key=secret&email=jdoe@denison.edu''],
         mails = []\<rparr>)
   \<and> delete settings0 (scripted [Response 200 ''[]''] True) ''jdoe'' world0 =
       (''ERROR: user could not be found in Dialpad!'',
        \<lparr>requests = [FindUser ''/api/v1/admin/user?api_key=secret&email=jdoe@denison.edu''],
         mails = []\<rparr>)"
proof -
  have h: "\<not> fst (findUser settings0 (scripted [Response 200 ''[]''] True)
            (principal_name settings0 ''jdoe'') world0)"
    by (simp add: eval_defs)
  have n: "''jdoe'' \<noteq> ''''" "''True'' \<noteq> ''''"
    by simp_all
  from update_delete_unknown_user [OF n(1) n(1) n(2) h] h show ?thesis
    by (simp add: user_path_def principal_name_def settings0_def world0_def)
qed

subsection \<open>C7: an empty required field\<close>

text \<open>
  C7. When one of the arguments of \<^verbatim>\<open>create\<close> (username, givenName, sn, ou), of
  \<^verbatim>\<open>update\<close> (username, newusername, loginDisabled) or of \<^verbatim>\<open>delete\<close> (username) is
  the empty string, the result is the missing-value error naming an argument that is
  empty, and the world is unchanged: no lookup, no other request, no notification. Which
  of several empty arguments is named depends on the iteration order of the dictionary.
\<close>

theorem empty_field_rejected:
  "(username = '''' \<or> givenName = '''' \<or> sn = '''' \<or> ou = '''' \<longrightarrow>
      (\<exists>item. (item, '''') \<in> set (create_locals username givenName sn ou)
         \<and> create cfg e username givenName sn ou w = (missing_value item, w)))
   \<and> (username = '''' \<or> newusername = '''' \<or> loginDisabled = '''' \<longrightarrow>
      (\<exists>item. (item, '''') \<in> set (update_locals username newusername loginDisabled)
         \<and> update cfg e username newusername loginDisabled w = (missing_value item, w)))
   \<and> delete cfg e '''' w = (missing_value ''username'', w)"
proof (intro conjI impI)
  assume "username = '''' \<or> givenName = '''' \<or> sn = '''' \<or> ou = ''''"
  then obtain k where "(k, '''') \<in> set (create_locals username givenName sn ou)"
    using create_locals_empty by blast
  then obtain item where
    it: "first_empty (dict_iter e (create_locals username givenName sn ou)) = Some item"
    and mem: "(item, '''') \<in> set (create_locals username givenName sn ou)"
    using first_empty_dict_iter by blast
  have "create cfg e username givenName sn ou w = (missing_value item, w)"
    by (simp add: create_def it)
  with mem show "\<exists>item. (item, '''') \<in> set (create_locals username givenName sn ou)
         \<and> create cfg e username givenName sn ou w = (missing_value item, w)"
    by blast
next
  assume "username = '''' \<or> newusername = '''' \<or> loginDisabled = ''''"
  then obtain k where "(k, '''') \<in> set (update_locals username newusername loginDisabled)"
    using update_locals_empty by blast
  then obtain item where
    it: "first_empty (dict_iter e (update_locals username newusername loginDisabled)) = Some item"
    and mem: "(item, '''') \<in> set (update_locals username newusername loginDisabled)"
    using first_empty_dict_iter by blast
  have "update cfg e username newusername loginDisabled w = (missing_value item, w)"
    by (simp add: update_def it)
  with mem show "\<exists>item. (item, '''') \<in> set (update_locals username newusername loginDisabled)
         \<and> update cfg e username newusername loginDisabled w = (missing_value item, w)"
    by blast
next
  show "delete cfg e '''' w = (missing_value ''username'', w)"
    by (simp add: delete_def missing_value_def)
qed

text \<open>
  C7 on a create with empty given name and surname and on an update with an empty
  loginDisabled.
\<close>

theorem empty_field_rejected_witness:
  "(''jdoe'' = '''' \<or> '''' = '''' \<or> '''' = '''' \<or> ''Biology'' = '''')
   \<and> (\<exists>item. (item, '''') \<in> set (create_locals ''jdoe'' '''' '''' ''Biology'')
         \<and> create settings0 (scripted [] True) ''jdoe'' '''' '''' ''Biology'' world0 =
             (missing_value item, world0))
   \<and> (''jdoe'' = '''' \<or> ''jdoe'' = '''' \<or> '''' = '''')
   \<and> (\<exists>item. (item, '''') \<in> set (update_locals ''jdoe'' ''jdoe'' '''')
         \<and> update settings0 (scripted [] True) ''jdoe'' ''jdoe'' '''' world0 =
             (missing_value item, world0))"
  using empty_field_rejected
          [of "''jdoe''" "''''" "''''" "''Biology''" settings0 "scripted [] True" world0
              "''jdoe''" "''''"]
  by simp

subsection \<open>C8: suspend or reactivate\<close>

text \<open>
  C8. For an update with non-empty fields, an existing user and the new username equal to
  the username: after the lookup exactly one request is issued, for the state
  \<^verbatim>\<open>suspend\<close> if loginDisabled is the string \<^verbatim>\<open>True\<close> and for \<^verbatim>\<open>reactivate\<close>
  for every other value; no notification is sent; a response with status 200 gives
  \<^verbatim>\<open>SUCCESS: user was updated in Dialpad.\<close> and a response with any other status gives
  \<^verbatim>\<open>ERROR: could not update Dialpad user.\<close>
\<close>

theorem update_suspend_or_reactivate:
  assumes "username \<noteq> ''''" and "loginDisabled \<noteq> ''''"
    and "fst (findUser cfg e (principal_name cfg username) w)"
  shows "\<exists>path.
           path = user_path cfg (principal_name cfg username) @ ''&action=''
                    @ (if loginDisabled = ''True'' then ''suspend'' else ''reactivate'')
         \<and> requests (snd (update cfg e username username loginDisabled w)) =
             requests w @ [FindUser (user_path cfg (principal_name cfg username)), UpdateUser path]
         \<and> mails (snd (update cfg e username username loginDisabled w)) = mails w
         \<and> (\<forall>data.
               http_reply e (log_request (FindUser (user_path cfg (principal_name cfg username))) w)
                 path = Response 200 data \<longrightarrow>
               fst (update cfg e username username loginDisabled w) =
                 ''SUCCESS: user was updated in Dialpad.'')
         \<and> (\<forall>status data.
               http_reply e (log_request (FindUser (user_path cfg (principal_name cfg username))) w)
                 path = Response status data \<and> status \<noteq> 200 \<longrightarrow>
               fst (update cfg e username username loginDisabled w) =
                 ''ERROR: could not update Dialpad user.'')"
proof -
  have chk: "first_empty (dict_iter e (update_locals username username loginDisabled)) = None"
    using assms(1) assms(1) assms(2) by (rule update_locals_checked)
  show ?thesis
    by (auto simp: update_state [OF chk assms(3)] Let_def log_request_def)
qed

text \<open>
  C8 on loginDisabled = true, in lower case: the request is for reactivate.
\<close>

theorem update_suspend_or_reactivate_witness:
  "fst (findUser settings0 (scripted [Response 200 ''jdoe@denison.edu'', Response 200 ''ok''] True)
          (principal_name settings0 ''jdoe'') world0)
   \<and> requests (snd (update settings0
         (scripted [Response 200 ''jdoe@denison.edu'', Response 200 ''ok''] True)
         ''jdoe'' ''jdoe'' ''true'' world0)) =
       [FindUser ''/api/v1/admin/user?api_key=secret&email=jdoe@denison.edu'',
        UpdateUser ''/api/v1/admin/user?api_key=secret&email=jdoe@denison.edu&action=reactivate'']
   \<and> fst (update settings0
         (scripted [Response 200 ''jdoe@denison.edu'', Response 200 ''ok''] True)
         ''jdoe'' ''jdoe'' ''true'' world0) = ''SUCCESS: user was updated in Dialpad.''"
proof -
  have h: "fst (findUser settings0 (scripted [Response 200 ''jdoe@denison.edu'', Response 200 ''ok''] True)
          (principal_name settings0 ''jdoe'') world0)"
    by (simp add: eval_defs)
  have n: "''jdoe'' \<noteq> ''''" "''true'' \<noteq> ''''"
    by simp_all
  from update_suspend_or_reactivate [OF n(1) n(2) h] h show ?thesis
    by (simp add: user_path_def principal_name_def settings0_def world0_def scripted_def
          log_request_def)
qed

subsection \<open>C9: the office parameter of a create\<close>

text \<open>
  C9. For a create with non-empty fields and a user that does not exist yet: when the
  organizational unit has no entry in the office dictionary, or the entry is the empty
  string, the add request is issued and its path ends with the surname, without an office
  parameter; when the entry is a non-empty key, the path ends with
  \<^verbatim>\<open>&office_key=\<close> and that key. In either case a response with status 200 to the
  add request gives the success result.
\<close>

theorem create_office_parameter:
  assumes "username \<noteq> ''''" and "givenName \<noteq> ''''" and "sn \<noteq> ''''" and "ou \<noteq> ''''"
    and "\<not> fst (findUser cfg e (principal_name cfg username) w)"
  shows "(DEPTDICTIONARY cfg ou = None \<or> DEPTDICTIONARY cfg ou = Some '''' \<longrightarrow>
            requests (snd (create cfg e username givenName sn ou w)) =
              requests w @
                [FindUser (user_path cfg (principal_name cfg username)),
                 AddUser (user_path cfg (principal_name cfg username)
                            @ ''&action=add&first_name='' @ givenName @ ''&last_name='' @ sn)])
         \<and> (\<forall>office_key. DEPTDICTIONARY cfg ou = Some office_key \<and> office_key \<noteq> '''' \<longrightarrow>
            requests (snd (create cfg e username givenName sn ou w)) =
              requests w @
                [FindUser (user_path cfg (principal_name cfg username)),
                 AddUser (user_path cfg (principal_name cfg username)
                            @ ''&action=add&first_name='' @ givenName @ ''&last_name='' @ sn
                            @ ''&office_key='' @ office_key)])
         \<and> (\<forall>path data.
               last (requests (snd (create cfg e username givenName sn ou w))) = AddUser path
               \<and> http_reply e (log_request (FindUser (user_path cfg (principal_name cfg username))) w)
                    path = Response 200 data \<longrightarrow>
               fst (create cfg e username givenName sn ou w) =
                 ''SUCCESS: user was created in Dialpad.'')"
proof -
  have chk: "first_empty (dict_iter e (create_locals username givenName sn ou)) = None"
    using assms(1-4) by (rule create_locals_checked)
  show ?thesis
    by (auto simp: create_not_found [OF chk assms(5)] Let_def log_request_def)
qed

text \<open>
  C9 on the settings file: Biology maps to the empty string, Admissions to a key.
\<close>

theorem create_office_parameter_witness:
  "\<not> fst (findUser settings0 (scripted [Response 200 ''[]'', Response 200 ''ok''] True)
            (principal_name settings0 ''jdoe'') world0)
   \<and> DEPTDICTIONARY settings0 ''Biology'' = Some ''''
   \<and> create settings0 (scripted [Response 200 ''[]'', Response 200 ''ok''] True)
         ''jdoe'' ''Jane'' ''Doe'' ''Biology'' world0 =
       (''SUCCESS: user was created in Dialpad.'',
        \<lparr>requests =
           [FindUser ''/api/v1/admin/user?api_key=secret&email=jdoe@denison.edu'',
            AddUser ''/api/v1/admin/user?api_key=secret&email=jdoe@denison.edu&action=add&first_name=Jane&last_name=Doe''],
         mails = []\<rparr>)
   \<and> DEPTDICTIONARY settings0 ''Admissions'' = Some ''gdfsgds546456bdcbbc''
   \<and> requests (snd (create settings0 (scripted [Response 200 ''[]'', Response 200 ''ok''] True)
         ''jdoe'' ''Jane'' ''Doe'' ''Admissions'' world0)) =
       [FindUser ''/api/v1/admin/user?api_key=secret&email=jdoe@denison.edu'',
        AddUser ''/api/v1/admin/user?api_key=secret&email=jdoe@denison.edu&action=add&first_name=Jane&last_name=Doe&office_key=gdfsgds546456bdcbbc'']"
proof -
  let ?e = "scripted [Response 200 ''[]'', Response 200 ''ok''] True"
  have h: "\<not> fst (findUser settings0 ?e (principal_name settings0 ''jdoe'') world0)"
    by (simp add: eval_defs)
  have n: "''jdoe'' \<noteq> ''''" "''Jane'' \<noteq> ''''" "''Doe'' \<noteq> ''''" "''Biology'' \<noteq> ''''"
    "''Admissions'' \<noteq> ''''"
    by simp_all
  have d: "DEPTDICTIONARY settings0 ''Biology'' = Some ''''"
    "DEPTDICTIONARY settings0 ''Admissions'' = Some ''gdfsgds546456bdcbbc''"
    by (simp_all add: settings0_def)
  have r: "\<forall>p. http_reply ?e
             (log_request (FindUser (user_path settings0 (principal_name settings0 ''jdoe''))) world0)
             p = Response 200 ''ok''"
    by (simp add: scripted_def log_request_def world0_def)
  note b = create_office_parameter [OF n(1) n(2) n(3) n(4) h]
  note a = create_office_parameter [OF n(1) n(2) n(3) n(5) h]
  from b d(1) have b1: "requests (snd (create settings0 ?e ''jdoe'' ''Jane'' ''Doe'' ''Biology'' world0)) =
      requests world0 @
        [FindUser (user_path settings0 (principal_name settings0 ''jdoe'')),
         AddUser (user_path settings0 (principal_name settings0 ''jdoe'')
                    @ ''&action=add&first_name='' @ ''Jane'' @ ''&last_name='' @ ''Doe'')]"
    by blast
  with b r have b2: "fst (create settings0 ?e ''jdoe'' ''Jane'' ''Doe'' ''Biology'' world0) =
      ''SUCCESS: user was created in Dialpad.''"
    by simp
  have b3: "mails (snd (create settings0 ?e ''jdoe'' ''Jane'' ''Doe'' ''Biology'' world0)) = []"
    by (simp add: create_def create_locals_def dict_iter_def eval_defs findOfficeKey_def)
  from a d(2) have a1: "requests (snd (create settings0 ?e ''jdoe'' ''Jane'' ''Doe'' ''Admissions'' world0)) =
      requests world0 @
        [FindUser (user_path settings0 (principal_name settings0 ''jdoe'')),
         AddUser (user_path settings0 (principal_name settings0 ''jdoe'')
                    @ ''&action=add&first_name='' @ ''Jane'' @ ''&last_name='' @ ''Doe''
                    @ ''&office_key='' @ ''gdfsgds546456bdcbbc'')]"
    by blast
  have eq: "create settings0 ?e ''jdoe'' ''Jane'' ''Doe'' ''Biology'' world0 =
      (''SUCCESS: user was created in Dialpad.'',
        \<lparr>requests =
           [FindUser ''/api/v1/admin/user?api_key=secret&email=jdoe@denison.edu'',
            AddUser ''/api/v1/admin/user?api_key=secret&email=jdoe@denison.edu&action=add&first_name=Jane&last_name=Doe''],
         mails = []\<rparr>)"
    using b1 b2 b3
    by (cases "create settings0 ?e ''jdoe'' ''Jane'' ''Doe'' ''Biology'' world0")
       (simp add: user_path_def principal_name_def settings0_def world0_def)
  from h d eq a1 show ?thesis
    by (simp add: user_path_def principal_name_def settings0_def world0_def)
qed

subsection \<open>C10: when the existence check says no\<close>

text \<open>
  C10. \<^verbatim>\<open>findUser\<close> returns \<^verbatim>\<open>False\<close> exactly when the lookup is answered with
  status 200 and a body in which the principal name does not occur. Consequently a
  response with status 200 whose body has the principal name anywhere inside it, between
  any other text, makes \<^verbatim>\<open>findUser\<close> return \<^verbatim>\<open>True\<close>.
\<close>

theorem findUser_false_only_without_name:
  "(\<not> fst (findUser cfg e upn w)) =
     (\<exists>data. http_reply e w (user_path cfg upn) = Response 200 data \<and> \<not> is_substring upn data)
   \<and> (\<forall>pre post. http_reply e w (user_path cfg upn) = Response 200 (pre @ upn @ post)
         \<longrightarrow> fst (findUser cfg e upn w))"
proof
  show "(\<not> fst (findUser cfg e upn w)) =
     (\<exists>data. http_reply e w (user_path cfg upn) = Response 200 data \<and> \<not> is_substring upn data)"
    by (auto simp: findUser_def Let_def split: http_outcome.splits)
  show "\<forall>pre post. http_reply e w (user_path cfg upn) = Response 200 (pre @ upn @ post)
         \<longrightarrow> fst (findUser cfg e upn w)"
    by (auto simp: findUser_def Let_def is_substring_iff)
qed

text \<open>
  C10 on a body that lists the user xjdoe only: the lookup for jdoe reports a user.
\<close>

theorem findUser_false_only_without_name_witness:
  "http_reply (scripted [Response 200 ''email: xjdoe@denison.edu;''] True) world0
     (user_path settings0 ''jdoe@denison.edu'')
     = Response 200 (''email: x'' @ ''jdoe@denison.edu'' @ '';'')
   \<and> fst (findUser settings0 (scripted [Response 200 ''email: xjdoe@denison.edu;''] True)
            ''jdoe@denison.edu'' world0)"
proof -
  have h: "http_reply (scripted [Response 200 ''email: xjdoe@denison.edu;''] True) world0
     (user_path settings0 ''jdoe@denison.edu'')
     = Response 200 (''email: x'' @ ''jdoe@denison.edu'' @ '';'')"
    by (simp add: scripted_def world0_def)
  with findUser_false_only_without_name
         [of settings0 "scripted [Response 200 ''email: xjdoe@denison.edu;''] True"
             "''jdoe@denison.edu''" world0]
  show ?thesis by blast
qed

end
